theory Spec2Isabelle
  imports Complex_Main "HOL-Library.Log_Nat"
begin

section \<open>Numbers and JavaScript operators\<close>

text \<open>
  Every TypeScript \<^verbatim>\<open>number\<close> is an IEEE 754 double. A finite double is modelled
  by the real number it denotes. A real number that is not itself a double (the decimal
  \<^verbatim>\<open>1.15\<close> of the source text, the decimal \<^verbatim>\<open>4.50\<close> of a table column) stands
  for the double nearest to it, which is what the compiler and \<^verbatim>\<open>parseFloat\<close> make
  of it: every arithmetic operation below first rounds its operands, which changes
  nothing on a double, and then rounds its exact result. An optional field
  (\<^verbatim>\<open>lawnSqft?: number\<close>) is a \<^typ>\<open>real option\<close>, \<open>None\<close> standing for
  \<^verbatim>\<open>undefined\<close>; where the code tests a field with \<^verbatim>\<open>||\<close> or
  \<^verbatim>\<open>&&\<close>, a \<^verbatim>\<open>null\<close> behaves like \<^verbatim>\<open>undefined\<close>.

  Overflow to \<^verbatim>\<open>Infinity\<close> and \<^verbatim>\<open>NaN\<close> are outside this model; the one
  place where the code deterministically produces \<^verbatim>\<open>NaN\<close> (an absent latitude or
  longitude) is written out in \<open>distanceMultiplierOf\<close> below.
\<close>

subsection \<open>Rounding to the nearest double\<close>

text \<open>The nearest integer, a tie going to the even one.\<close>

definition round_even :: "real \<Rightarrow> int" where
  "round_even y =
     (let n = \<lfloor>y\<rfloor>
      in if y - of_int n < 1 / 2 then n
         else if 1 / 2 < y - of_int n then n + 1
         else if even n then n else n + 1)"

text \<open>
  The binary exponent \<open>e\<close> of a positive number, \<open>2 powi e \<le> x < 2 powi (e + 1)\<close>; the
  exponent of the last of the 53 bits of its significand, which does not go below
  \<open>- 1074\<close>; and the distance \<open>ulp\<close> between neighbouring doubles at that magnitude.
\<close>

definition expo :: "real \<Rightarrow> int" where
  "expo x = (if 1 \<le> x then bitlen \<lfloor>x\<rfloor> - 1 else - bitlen (\<lceil>1 / x\<rceil> - 1))"

definition qexp :: "real \<Rightarrow> int" where
  "qexp x = max (expo x) (- 1022) - 52"

definition ulp :: "real \<Rightarrow> real" where
  "ulp x = 2 powi qexp x"

text \<open>\<open>fl x\<close> is the double nearest to \<open>x\<close>, a tie going to the even significand.\<close>

definition fl :: "real \<Rightarrow> real" where
  "fl x = (if x = 0 then 0
           else sgn x * (of_int (round_even (\<bar>x\<bar> / ulp \<bar>x\<bar>)) * ulp \<bar>x\<bar>))"

text \<open>The same for a positive number, and half of the smallest positive double.\<close>

definition flp :: "real \<Rightarrow> real" where
  "flp x = of_int (round_even (x / ulp x)) * ulp x"

definition tiny :: real where
  "tiny = 2 powi (- 1075)"

subsection \<open>Arithmetic and the Math functions\<close>

text \<open>The operators \<^verbatim>\<open>+\<close>, \<^verbatim>\<open>*\<close> and \<^verbatim>\<open>/\<close> on doubles, and
  \<^verbatim>\<open>Math.sqrt\<close>, which is correctly rounded.\<close>

definition fadd :: "real \<Rightarrow> real \<Rightarrow> real" where
  "fadd a b = fl (fl a + fl b)"

definition fmul :: "real \<Rightarrow> real \<Rightarrow> real" where
  "fmul a b = fl (fl a * fl b)"

definition fdiv :: "real \<Rightarrow> real \<Rightarrow> real" where
  "fdiv a b = fl (fl a / fl b)"

definition fsqrt :: "real \<Rightarrow> real" where
  "fsqrt a = fl (sqrt (fl a))"

text \<open>\<^verbatim>\<open>Math.round(x)\<close>: the nearest integer, a tie going up; it is computed without
  rounding error.\<close>

definition Math_round :: "real \<Rightarrow> real" where
  "Math_round x = of_int \<lfloor>x + 1 / 2\<rfloor>"

text \<open>\<^verbatim>\<open>Math.ceil(x)\<close>.\<close>

definition Math_ceil :: "real \<Rightarrow> real" where
  "Math_ceil x = of_int \<lceil>x\<rceil>"

text \<open>\<^verbatim>\<open>Math.round(cost * 100) / 100\<close>, the rounding to cents of every sub-cost.\<close>

definition round_cents :: "real \<Rightarrow> real" where
  "round_cents cost = fdiv (Math_round (fmul cost 100)) 100"

text \<open>
  \<open>or_default x d\<close> is the expression \<^verbatim>\<open>x || d\<close> on an optional number:
  \<^verbatim>\<open>undefined\<close> and \<^verbatim>\<open>0\<close> are falsy and give \<open>d\<close>.
\<close>

definition or_default :: "real option \<Rightarrow> real \<Rightarrow> real" where
  "or_default x d = (case x of None \<Rightarrow> d | Some v \<Rightarrow> if v = 0 then d else v)"

section \<open>Data model (types/index.ts)\<close>

datatype grass_height = Normal | Overgrown | Very_overgrown
datatype coverage = Light | Moderate | Heavy
datatype bed_condition = Good | Needs_work | Bed_overgrown

datatype ServiceType = Mowing | Cleanup | Mulch | Softscape | Maintenance
datatype TierType = Grass_roots | Premier | Total_landscape

text \<open>The fields of \<^verbatim>\<open>Property\<close> that the pricing and upsell code reads.\<close>

record Property =
  zipCode :: "string option"
  lat :: "real option"
  lng :: "real option"
  lawnSqft :: "real option"
  bedSqft :: "real option"
  rooflineFt :: "real option"
  conditionScore :: "real option"
  grassHeight :: "grass_height option"
  bushCount :: "real option"
  treeCoverage :: "coverage option"
  bedCondition :: "bed_condition option"

text \<open>
  A row of the \<^verbatim>\<open>rate_cards\<close> table, under its column names.
  \<open>base_rate\<close> is the decimal of the column; the number \<^verbatim>\<open>parseFloat(row.base_rate)\<close>
  that both the pricing engine (as \<^verbatim>\<open>baseRate\<close> of its \<^verbatim>\<open>RateCard\<close>) and the
  upsell engine compute from it is the double it stands for. \<^verbatim>\<open>loadRateCards\<close>
  copies the other columns unchanged (\<^verbatim>\<open>service_code\<close> as \<^verbatim>\<open>serviceCode\<close>), so one record serves
  for the row and for the \<^verbatim>\<open>RateCard\<close>.
\<close>

record RateCard =
  service_code :: string
  base_rate :: real
  factor :: real
  active :: bool

text \<open>
  What the code reads from outside: the two tables, the environment variables and the
  great-circle distance. \<open>rate_cards\<close> holds the rows of the table, active or not,
  and is \<open>None\<close> when the query on it fails (\<^verbatim>\<open>error\<close> set,
  \<^verbatim>\<open>data\<close> null); the filter \<^verbatim>\<open>.eq('active', true)\<close> of both queries
  is applied where the rows are loaded. \<open>regional_adjustments zip\<close> is the multiplier of the
  single active row for that ZIP code, \<open>None\<close> when the query fails or finds none.
  \<open>haversine lat lng\<close> is the value \<^verbatim>\<open>calculateDistanceFromServiceCenter\<close>
  returns for two numbers (trigonometry on doubles, rounded to one decimal); it is a
  parameter here.
\<close>

record Env =
  rate_cards :: "RateCard list option"
  regional_adjustments :: "string \<Rightarrow> real option"
  DEFAULT_REGIONAL_MULTIPLIER :: "real option"
  SERVICE_AREA_RADIUS_MILES :: "real option"
  haversine :: "real \<Rightarrow> real \<Rightarrow> real"

datatype error =
  is_AppError: AppError string nat   \<comment> \<open>\<^verbatim>\<open>new AppError(message, statusCode)\<close>\<close>
| TypeError string      \<comment> \<open>thrown by the runtime on reading a property of \<^verbatim>\<open>undefined\<close>\<close>

section \<open>Multipliers\<close>

text \<open>aiVision.ts: \<^verbatim>\<open>multipliers[score] || 1.0\<close>.\<close>

definition conditionScoreToMultiplier :: "real \<Rightarrow> real" where
  "conditionScoreToMultiplier score =
     (if score = 1 then 0.9
      else if score = 2 then 1.0
      else if score = 3 then 1.1
      else if score = 4 then 1.25
      else if score = 5 then 1.5
      else 1.0)"

text \<open>pricingEngine.ts: the step function of the distance, \<open>maxDistance\<close> being
  \<^verbatim>\<open>parseFloat(process.env.SERVICE_AREA_RADIUS_MILES || '25')\<close>.\<close>

definition maxDistance :: "Env \<Rightarrow> real" where
  "maxDistance env = (case SERVICE_AREA_RADIUS_MILES env of None \<Rightarrow> 25 | Some r \<Rightarrow> r)"

definition calculateDistanceMultiplier :: "Env \<Rightarrow> real \<Rightarrow> real" where
  "calculateDistanceMultiplier env distanceMiles =
     (if distanceMiles \<le> 10 then 1.0
      else if distanceMiles \<le> 20 then 1.05
      else if distanceMiles \<le> maxDistance env then 1.1
      else 1.2)"

text \<open>\<^verbatim>\<open>getRegionalMultiplier\<close>: an absent or empty ZIP code and a failed lookup
  both give the configured default.\<close>

definition defaultRegionalMultiplier :: "Env \<Rightarrow> real" where
  "defaultRegionalMultiplier env =
     (case DEFAULT_REGIONAL_MULTIPLIER env of None \<Rightarrow> 1.0 | Some m \<Rightarrow> m)"

definition getRegionalMultiplier :: "Env \<Rightarrow> string option \<Rightarrow> real" where
  "getRegionalMultiplier env zc =
     (case zc of
        None \<Rightarrow> defaultRegionalMultiplier env
      | Some z \<Rightarrow>
          if z = [] then defaultRegionalMultiplier env
          else (case regional_adjustments env z of
                  None \<Rightarrow> defaultRegionalMultiplier env
                | Some m \<Rightarrow> m))"

text \<open>
  The local constants of \<^verbatim>\<open>calculateAllTiers\<close>.
  \<open>complexityMultiplierOf\<close> is
  \<^verbatim>\<open>conditionScoreToMultiplier(property.conditionScore || 3)\<close>.
  \<open>distanceMultiplierOf\<close> is
  \<^verbatim>\<open>calculateDistanceMultiplier(calculateDistanceFromServiceCenter(property.lat!, property.lng!))\<close>:
  with \<^verbatim>\<open>lat\<close> or \<^verbatim>\<open>lng\<close> undefined the distance is \<^verbatim>\<open>NaN\<close>, every
  comparison of the step function is false and the last branch returns 1.2. An absent
  field is \<^verbatim>\<open>undefined\<close>, as the type \<^verbatim>\<open>lat?: number\<close> has it; a
  \<^verbatim>\<open>null\<close>, which that type excludes, would be coerced to 0 by the arithmetic
  and is a coordinate of 0 in this model.
\<close>

definition complexityMultiplierOf :: "Property \<Rightarrow> real" where
  "complexityMultiplierOf property =
     conditionScoreToMultiplier (or_default (conditionScore property) 3)"

definition distanceMultiplierOf :: "Env \<Rightarrow> Property \<Rightarrow> real" where
  "distanceMultiplierOf env property =
     (case (lat property, lng property) of
        (Some la, Some lo) \<Rightarrow> calculateDistanceMultiplier env (haversine env la lo)
      | _ \<Rightarrow> 1.2)"

definition totalMultiplier :: "Env \<Rightarrow> Property \<Rightarrow> real" where
  "totalMultiplier env property =
     fmul (fmul (getRegionalMultiplier env (zipCode property))
                (complexityMultiplierOf property))
          (distanceMultiplierOf env property)"

section \<open>Tier pricing (pricingEngine.ts)\<close>

record TierQuote =
  tier :: TierType
  tierName :: string
  annualPrice :: real
  monthlyPrice :: real
  breakdown :: "(string \<times> real) list"

text \<open>
  \<^verbatim>\<open>loadRateCards\<close>: the query selects the rows with \<^verbatim>\<open>active = true\<close>; a
  failed query throws \<^verbatim>\<open>AppError('Failed to load pricing data', 500)\<close>.
\<close>

definition loadRateCards :: "Env \<Rightarrow> error + RateCard list" where
  "loadRateCards env =
     (case rate_cards env of
        None \<Rightarrow> Inl (AppError ''Failed to load pricing data'' 500)
      | Some rows \<Rightarrow> Inr (filter active rows))"

text \<open>
  \<^verbatim>\<open>new Map(rateCards.map((rc) => [rc.serviceCode, rc]))\<close>: of two rows with one code
  the later one stays.
\<close>

definition rateCardMap :: "RateCard list \<Rightarrow> string \<Rightarrow> RateCard option" where
  "rateCardMap rateCards = map_of (rev (map (\<lambda>rc. (service_code rc, rc)) rateCards))"

definition calculateMowingCost :: "real \<Rightarrow> RateCard \<Rightarrow> real \<Rightarrow> real" where
  "calculateMowingCost lawn rateCard multiplier =
     (let baseRate = base_rate rateCard;
          visits = factor rateCard;
          cost = fmul (fmul (fmul (fdiv lawn 1000) baseRate) visits) multiplier
      in round_cents cost)"

definition calculateLeafCleanupCost :: "real \<Rightarrow> RateCard \<Rightarrow> real \<Rightarrow> bool \<Rightarrow> real" where
  "calculateLeafCleanupCost lawn rateCard multiplier fullCleanup =
     (let baseRate = base_rate rateCard;
          cleanups = (if fullCleanup then factor rateCard else 1);
          cost = fmul (fmul (fmul (fdiv lawn 1000) baseRate) cleanups) multiplier
      in round_cents cost)"

definition calculateSeasonalPackageCost :: "RateCard \<Rightarrow> real \<Rightarrow> real" where
  "calculateSeasonalPackageCost rateCard multiplier =
     (let cost = fmul (base_rate rateCard) multiplier in round_cents cost)"

definition calculateLightsCost :: "real \<Rightarrow> RateCard \<Rightarrow> real \<Rightarrow> real" where
  "calculateLightsCost roofline rateCard multiplier =
     (let baseRate = base_rate rateCard;
          cost = fmul (fmul roofline baseRate) multiplier
      in round_cents cost)"

text \<open>
  Lines 209 to 277 of \<^verbatim>\<open>calculateAllTiers\<close>: from the four sub-costs to the three
  quotes. A \<^verbatim>\<open>breakdown\<close> object is the list of its keys and values, in the order
  the code writes them.
\<close>

definition tierQuotes :: "real \<Rightarrow> real \<Rightarrow> real \<Rightarrow> real \<Rightarrow> TierQuote list" where
  "tierQuotes mowingCost fullLeafCost seasonalCost lightsCost =
     (let basicLeafCost = fmul fullLeafCost 0.25;
          tier1Annual = fadd mowingCost basicLeafCost;
          tier2Annual = fadd (fadd mowingCost fullLeafCost) seasonalCost;
          tier3Base = fadd tier2Annual lightsCost;
          tier3Annual = fmul tier3Base 1.15
      in [\<lparr>tier = Grass_roots, tierName = ''Grass Roots'',
           annualPrice = Math_round tier1Annual,
           monthlyPrice = Math_round (fdiv tier1Annual 12),
           breakdown = [(''mowing'', Math_round mowingCost),
                        (''leafCleanup'', Math_round basicLeafCost)]\<rparr>,
          \<lparr>tier = Premier, tierName = ''Premier Lawn'',
           annualPrice = Math_round tier2Annual,
           monthlyPrice = Math_round (fdiv tier2Annual 12),
           breakdown = [(''mowing'', Math_round mowingCost),
                        (''leafCleanup'', Math_round fullLeafCost),
                        (''seasonal'', Math_round seasonalCost)]\<rparr>,
          \<lparr>tier = Total_landscape, tierName = ''Total Landscape'',
           annualPrice = Math_round tier3Annual,
           monthlyPrice = Math_round (fdiv tier3Annual 12),
           breakdown = [(''mowing'', Math_round mowingCost),
                        (''leafCleanup'', Math_round fullLeafCost),
                        (''seasonal'', Math_round seasonalCost),
                        (''lights'', Math_round lightsCost),
                        (''premiumMarkup'', Math_round (fmul tier3Base 0.15))]\<rparr>])"

text \<open>
  \<^verbatim>\<open>rateCardMap.get(code)!\<close>: the assertion \<^verbatim>\<open>!\<close> is erased by the compiler, so
  a code that the map lacks gives \<^verbatim>\<open>undefined\<close>, and the cost function that
  receives it throws a \<^verbatim>\<open>TypeError\<close> at \<^verbatim>\<open>rateCard.baseRate\<close>. The four cost
  functions run in the order mowing, leaf, seasonal, lights and throw the same error, so
  the model raises it where each card is first used.
\<close>

definition undefinedCard :: error where
  "undefinedCard = TypeError ''Cannot read properties of undefined (reading baseRate)''"

definition calculateAllTiers :: "Env \<Rightarrow> Property \<Rightarrow> error + TierQuote list" where
  "calculateAllTiers env property =
     (case loadRateCards env of
        Inl e \<Rightarrow> Inl e
      | Inr rateCards \<Rightarrow>
          let cards = rateCardMap rateCards;
              multiplier = totalMultiplier env property;
              lawn = or_default (lawnSqft property) 0;
              roofline = or_default (rooflineFt property) 0
          in (case cards ''MOWING_BASE'' of
                None \<Rightarrow> Inl undefinedCard
              | Some mowingCard \<Rightarrow>
             (case cards ''LEAF_CLEANUP'' of
                None \<Rightarrow> Inl undefinedCard
              | Some leafCard \<Rightarrow>
             (case cards ''SEASONAL_PACKAGE'' of
                None \<Rightarrow> Inl undefinedCard
              | Some seasonalCard \<Rightarrow>
             (case cards ''LIGHTS_INSTALL'' of
                None \<Rightarrow> Inl undefinedCard
              | Some lightsCard \<Rightarrow>
                  Inr (tierQuotes
                         (calculateMowingCost lawn mowingCard multiplier)
                         (calculateLeafCleanupCost lawn leafCard multiplier True)
                         (calculateSeasonalPackageCost seasonalCard multiplier)
                         (calculateLightsCost roofline lightsCard multiplier)))))))"

text \<open>\<^verbatim>\<open>calculateMulchYardage\<close>, with its default depth of 3 inches, and
  \<^verbatim>\<open>estimateLaborHours\<close>, where \<^verbatim>\<open>baseHours[serviceType] || 2\<close> replaces a base
  of zero hours by 2.\<close>

definition calculateMulchYardage :: "real \<Rightarrow> real \<Rightarrow> real" where
  "calculateMulchYardage bed depthInches =
     (let cubicYards = fdiv (fmul bed depthInches) 324
      in fdiv (Math_ceil (fmul cubicYards 2)) 2)"

definition baseHours :: "ServiceType \<Rightarrow> real \<Rightarrow> real" where
  "baseHours serviceType lawn =
     (case serviceType of
        Mowing \<Rightarrow> fdiv lawn 5000
      | Cleanup \<Rightarrow> fdiv lawn 2000
      | Mulch \<Rightarrow> fdiv lawn 1000
      | Softscape \<Rightarrow> fdiv lawn 500
      | Maintenance \<Rightarrow> fdiv lawn 3000)"

definition estimateLaborHours :: "ServiceType \<Rightarrow> real \<Rightarrow> real \<Rightarrow> real" where
  "estimateLaborHours serviceType lawn complexityScore =
     (let base = (if baseHours serviceType lawn = 0 then 2 else baseHours serviceType lawn);
          complexityFactor = fdiv complexityScore 3;
          hours = fmul base complexityFactor
      in fdiv (Math_ceil (fmul hours 2)) 2)"

section \<open>Upsell recommendations\<close>

text \<open>
  A template string keeps its literal pieces and the numbers interpolated between them,
  so that no formatting of a number as text is assumed.
\<close>

datatype text_part = Txt string | Num real

record Upsell =
  serviceCode :: string
  serviceName :: string
  description :: "text_part list"
  price :: real
  recommended :: bool

text \<open>
  Each of the seven rule blocks of \<^verbatim>\<open>generateUpsells\<close> pushes at most one upsell.
  A block is modelled by the list of what it pushes; \<open>cards\<close> is
  \<^verbatim>\<open>rateCardMap.get\<close>. A guard such as \<^verbatim>\<open>property.bedSqft && ...\<close> fails on
  an absent field and on zero.
\<close>

definition edgingRule :: "(string \<Rightarrow> RateCard option) \<Rightarrow> Property \<Rightarrow> Upsell list" where
  "edgingRule cards property =
     (case bedSqft property of
        None \<Rightarrow> []
      | Some bed \<Rightarrow>
          if bed \<noteq> 0 \<and> bed > 0 \<and> bedCondition property \<noteq> Some Good then
            (case cards ''EDGING'' of
               None \<Rightarrow> []
             | Some edgingCard \<Rightarrow>
                 let bedPerimeter = fmul (fsqrt bed) 4;
                     price = fmul bedPerimeter (base_rate edgingCard)
                 in [\<lparr>serviceCode = ''EDGING'',
                      serviceName = ''Professional Bed Edging'',
                      description =
                        [Txt ''Create crisp, clean borders around landscape beds for a polished look''],
                      price = Math_round price,
                      recommended = True\<rparr>])
          else [])"

definition bushTrimmingRule :: "(string \<Rightarrow> RateCard option) \<Rightarrow> Property \<Rightarrow> Upsell list" where
  "bushTrimmingRule cards property =
     (case bushCount property of
        None \<Rightarrow> []
      | Some bushes \<Rightarrow>
          if bushes \<noteq> 0 \<and> bushes > 5 then
            (case cards ''BUSH_TRIMMING'' of
               None \<Rightarrow> []
             | Some bushCard \<Rightarrow>
                 let price = fmul bushes (base_rate bushCard)
                 in [\<lparr>serviceCode = ''BUSH_TRIMMING'',
                      serviceName = ''Seasonal Bush Trimming'',
                      description =
                        [Txt ''Professional shaping and trimming for '', Num bushes,
                         Txt '' bushes/shrubs''],
                      price = Math_round price,
                      recommended = (bedCondition property = Some Bed_overgrown)\<rparr>])
          else [])"

definition mulchRule :: "(string \<Rightarrow> RateCard option) \<Rightarrow> Property \<Rightarrow> Upsell list" where
  "mulchRule cards property =
     (case bedSqft property of
        None \<Rightarrow> []
      | Some bed \<Rightarrow>
          if bed \<noteq> 0 \<and> bed > 200 \<and> bedCondition property \<noteq> Some Good then
            (case cards ''MULCH_INSTALL'' of
               None \<Rightarrow> []
             | Some mulchCard \<Rightarrow>
                 let cubicYards = calculateMulchYardage bed 3;
                     price = fmul cubicYards (base_rate mulchCard)
                 in [\<lparr>serviceCode = ''MULCH_INSTALL'',
                      serviceName = ''Fresh Mulch Installation'',
                      description =
                        [Num cubicYards,
                         Txt '' cubic yards of premium mulch to refresh landscape beds''],
                      price = Math_round price,
                      recommended = (bedCondition property = Some Bed_overgrown)\<rparr>])
          else [])"

definition bedMaintenanceRule ::
  "(string \<Rightarrow> RateCard option) \<Rightarrow> Property \<Rightarrow> TierType \<Rightarrow> Upsell list" where
  "bedMaintenanceRule cards property tr =
     (if tr = Premier \<or> tr = Total_landscape then
        (case (cards ''BED_MAINTENANCE'', bedSqft property) of
           (Some bedMaintenanceCard, Some bed) \<Rightarrow>
             if bed \<noteq> 0 then
               let bedUnits = fdiv bed 100;
                   monthly = fmul bedUnits (base_rate bedMaintenanceCard);
                   annual = fmul monthly 12
               in [\<lparr>serviceCode = ''BED_MAINTENANCE'',
                    serviceName = ''Monthly Bed Maintenance'',
                    description =
                      [Txt ''Year-round weeding, mulch touch-ups, and bed care (12 visits/year)''],
                    price = Math_round annual,
                    recommended = (bed > 500)\<rparr>]
             else []
         | _ \<Rightarrow> [])
      else [])"

definition leafUpgradeRule ::
  "(string \<Rightarrow> RateCard option) \<Rightarrow> Property \<Rightarrow> TierType \<Rightarrow> Upsell list" where
  "leafUpgradeRule cards property tr =
     (if tr = Grass_roots \<and> treeCoverage property = Some Heavy then
        (case (cards ''LEAF_CLEANUP'', lawnSqft property) of
           (Some leafCard, Some lawn) \<Rightarrow>
             if lawn \<noteq> 0 then
               let upgradePrice = fmul (fmul (fdiv lawn 1000) (base_rate leafCard)) 1.5
               in [\<lparr>serviceCode = ''LEAF_CLEANUP_UPGRADE'',
                    serviceName = ''Full Fall Cleanup Package'',
                    description =
                      [Txt ''Upgrade to 2 complete fall cleanups (recommended for heavy tree coverage)''],
                    price = Math_round upgradePrice,
                    recommended = True\<rparr>]
             else []
         | _ \<Rightarrow> [])
      else [])"

definition seasonalRule ::
  "(string \<Rightarrow> RateCard option) \<Rightarrow> Property \<Rightarrow> TierType \<Rightarrow> Upsell list" where
  "seasonalRule cards property tr =
     (if tr = Grass_roots then
        (case cards ''SEASONAL_PACKAGE'' of
           None \<Rightarrow> []
         | Some seasonalCard \<Rightarrow>
             [\<lparr>serviceCode = ''SEASONAL_PACKAGE'',
               serviceName = ''Seasonal Care Package'',
               description =
                 [Txt ''Add lawn aeration (1x) and fertilization (4x) for a healthier lawn''],
               price = Math_round (fl (base_rate seasonalCard)),
               recommended = (grassHeight property = Some Overgrown)\<rparr>])
      else [])"

definition lightsRule ::
  "(string \<Rightarrow> RateCard option) \<Rightarrow> Property \<Rightarrow> TierType \<Rightarrow> Upsell list" where
  "lightsRule cards property tr =
     (case rooflineFt property of
        None \<Rightarrow> []
      | Some roofline \<Rightarrow>
          if tr \<noteq> Total_landscape \<and> roofline \<noteq> 0 then
            (case cards ''LIGHTS_INSTALL'' of
               None \<Rightarrow> []
             | Some lightsCard \<Rightarrow>
                 let price = fmul roofline (base_rate lightsCard)
                 in [\<lparr>serviceCode = ''LIGHTS_INSTALL'',
                      serviceName = ''Holiday Lights Installation'',
                      description =
                        [Txt ''Professional installation and removal of Christmas lights ('',
                         Num roofline, Txt ''ft roofline)''],
                      price = Math_round price,
                      recommended = False\<rparr>])
          else [])"

text \<open>
  \<^verbatim>\<open>generateUpsells\<close>: the query result \<^verbatim>\<open>data\<close> is null when the query fails,
  and the function then returns the empty list; otherwise the seven blocks run in order,
  each appending to \<^verbatim>\<open>upsells\<close>. The service type is only logged.
\<close>

definition generateUpsells :: "Env \<Rightarrow> Property \<Rightarrow> ServiceType \<Rightarrow> TierType \<Rightarrow> Upsell list" where
  "generateUpsells env property serviceType tr =
     (case rate_cards env of
        None \<Rightarrow> []
      | Some rows \<Rightarrow>
          let cards = rateCardMap (filter active rows)
          in edgingRule cards property
             @ bushTrimmingRule cards property
             @ mulchRule cards property
             @ bedMaintenanceRule cards property tr
             @ leafUpgradeRule cards property tr
             @ seasonalRule cards property tr
             @ lightsRule cards property tr)"

text \<open>The rate card that the upsell with a given service code is priced from.\<close>

definition rateCardOf :: "string \<Rightarrow> string" where
  "rateCardOf code = (if code = ''LEAF_CLEANUP_UPGRADE'' then ''LEAF_CLEANUP'' else code)"

text \<open>The catalog with every row of one service code taken out.\<close>

definition withoutCard :: "string \<Rightarrow> Env \<Rightarrow> Env" where
  "withoutCard code env =
     env\<lparr>rate_cards := map_option (filter (\<lambda>rc. service_code rc \<noteq> code)) (rate_cards env)\<rparr>"

section \<open>Example data\<close>

text \<open>The seed rows of the \<^verbatim>\<open>rate_cards\<close> and \<^verbatim>\<open>regional_adjustments\<close> tables
  of the database schema.\<close>

definition seedRateCards :: "RateCard list" where
  "seedRateCards =
     [\<lparr>service_code = ''MOWING_BASE'', base_rate = 4.50, factor = 30, active = True\<rparr>,
      \<lparr>service_code = ''LEAF_CLEANUP'', base_rate = 6.00, factor = 2, active = True\<rparr>,
      \<lparr>service_code = ''LIGHTS_INSTALL'', base_rate = 3.00, factor = 1, active = True\<rparr>,
      \<lparr>service_code = ''SEASONAL_PACKAGE'', base_rate = 650.00, factor = 1, active = True\<rparr>,
      \<lparr>service_code = ''MULCH_INSTALL'', base_rate = 95.00, factor = 1, active = True\<rparr>,
      \<lparr>service_code = ''EDGING'', base_rate = 2.50, factor = 1, active = True\<rparr>,
      \<lparr>service_code = ''BUSH_TRIMMING'', base_rate = 15.00, factor = 1, active = True\<rparr>,
      \<lparr>service_code = ''BED_MAINTENANCE'', base_rate = 25.00, factor = 12, active = True\<rparr>]"

definition seedRegionalAdjustments :: "string \<Rightarrow> real option" where
  "seedRegionalAdjustments z =
     (if z = ''45247'' then Some 1.05
      else if z = ''45242'' then Some 0.95
      else if z = ''45243'' then Some 1.00
      else if z = ''45244'' then Some 1.00
      else None)"

text \<open>An environment with the seed data and every property 8 miles from the centre.\<close>

definition seedEnv :: Env where
  "seedEnv =
     \<lparr>rate_cards = Some seedRateCards,
      regional_adjustments = seedRegionalAdjustments,
      DEFAULT_REGIONAL_MULTIPLIER = None,
      SERVICE_AREA_RADIUS_MILES = None,
      haversine = (\<lambda>la lo. 8)\<rparr>"

text \<open>The property of the end-to-end scenario: 10000 sqft of lawn, 150 ft of roofline,
  600 sqft of overgrown beds, 8 bushes, condition score 4, ZIP code 45247.\<close>

definition scenarioProperty :: Property where
  "scenarioProperty =
     \<lparr>zipCode = Some ''45247'', lat = Some 39.2, lng = Some (- 84.5),
      lawnSqft = Some 10000, bedSqft = Some 600, rooflineFt = Some 150,
      conditionScore = Some 4, grassHeight = Some Overgrown, bushCount = Some 8,
      treeCoverage = Some Moderate, bedCondition = Some Bed_overgrown\<rparr>"

text \<open>A small, well kept property in the same ZIP code: 4000 sqft of lawn, 70 ft of
  roofline, condition score 1.\<close>

definition smallProperty :: Property where
  "smallProperty =
     \<lparr>zipCode = Some ''45247'', lat = Some 39.2, lng = Some (- 84.5),
      lawnSqft = Some 4000, bedSqft = None, rooflineFt = Some 70,
      conditionScore = Some 1, grassHeight = Some Normal, bushCount = None,
      treeCoverage = Some Light, bedCondition = Some Good\<rparr>"

text \<open>The seed catalog with the lights card switched off, and the seed environment with
  a negative regional multiplier stored for every ZIP code.\<close>

definition lightsInactiveEnv :: Env where
  "lightsInactiveEnv =
     seedEnv\<lparr>rate_cards := Some (map (\<lambda>rc. if service_code rc = ''LIGHTS_INSTALL''
                                            then rc\<lparr>active := False\<rparr> else rc) seedRateCards)\<rparr>"

definition negativeRegionEnv :: Env where
  "negativeRegionEnv = seedEnv\<lparr>regional_adjustments := (\<lambda>z. Some (- 1))\<rparr>"

text \<open>The seed environment after the mowing card was deleted from the table.\<close>

definition noMowingEnv :: Env where
  "noMowingEnv = withoutCard ''MOWING_BASE'' seedEnv"

text \<open>A property with 7600 sqft of lawn and no roofline, in the same ZIP code and with
  condition score 1.\<close>

definition plainProperty :: Property where
  "plainProperty =
     \<lparr>zipCode = Some ''45247'', lat = Some 39.2, lng = Some (- 84.5),
      lawnSqft = Some 7600, bedSqft = None, rooflineFt = Some 0,
      conditionScore = Some 1, grassHeight = Some Normal, bushCount = None,
      treeCoverage = Some Light, bedCondition = Some Good\<rparr>"

text \<open>A catalog whose four tier-pricing rates end in half a currency unit, and a property
  with 1000 sqft of lawn, one foot of roofline, condition score 2 and no ZIP code, so
  that every multiplier is 1.\<close>

definition halvesEnv :: Env where
  "halvesEnv =
     seedEnv\<lparr>rate_cards := Some
       [\<lparr>service_code = ''MOWING_BASE'', base_rate = 0.50, factor = 1, active = True\<rparr>,
        \<lparr>service_code = ''LEAF_CLEANUP'', base_rate = 0.50, factor = 1, active = True\<rparr>,
        \<lparr>service_code = ''SEASONAL_PACKAGE'', base_rate = 1668.50, factor = 1, active = True\<rparr>,
        \<lparr>service_code = ''LIGHTS_INSTALL'', base_rate = 0.50, factor = 1, active = True\<rparr>]\<rparr>"

definition halvesProperty :: Property where
  "halvesProperty =
     \<lparr>zipCode = None, lat = Some 39.2, lng = Some (- 84.5),
      lawnSqft = Some 1000, bedSqft = None, rooflineFt = Some 1,
      conditionScore = Some 2, grassHeight = Some Normal, bushCount = None,
      treeCoverage = Some Light, bedCondition = Some Good\<rparr>"

text \<open>The quotes the code computes for some of these inputs.\<close>

definition smallTiers :: "TierQuote list" where
  "smallTiers = projr (calculateAllTiers seedEnv smallProperty)"

definition negativeTiers :: "TierQuote list" where
  "negativeTiers = projr (calculateAllTiers negativeRegionEnv scenarioProperty)"

definition plainTiers :: "TierQuote list" where
  "plainTiers = projr (calculateAllTiers seedEnv plainProperty)"

definition halvesTiers :: "TierQuote list" where
  "halvesTiers = projr (calculateAllTiers halvesEnv halvesProperty)"

text \<open>The scenario property without a condition score.\<close>

definition unscoredProperty :: Property where
  "unscoredProperty = scenarioProperty\<lparr>conditionScore := None\<rparr>"

text \<open>The table of square feet per hour as the specification gives it, to compare
  \<open>estimateLaborHours\<close> with.\<close>

definition sqftPerHour :: "ServiceType \<Rightarrow> real" where
  "sqftPerHour serviceType =
     (case serviceType of
        Mowing \<Rightarrow> 5000
      | Cleanup \<Rightarrow> 2000
      | Mulch \<Rightarrow> 1000
      | Softscape \<Rightarrow> 500
      | Maintenance \<Rightarrow> 3000)"

section \<open>Properties of the rounding\<close>

lemma round_even_of_int: "round_even (of_int n) = n"
  by (simp add: round_even_def)

lemma round_even_err: "\<bar>of_int (round_even y) - y\<bar> \<le> 1 / 2"
  unfolding round_even_def Let_def by (auto; linarith)

lemma round_even_floor: "\<lfloor>y\<rfloor> \<le> round_even y" "round_even y \<le> \<lfloor>y\<rfloor> + 1"
  unfolding round_even_def Let_def by auto

lemma round_even_mono: "y \<le> z \<Longrightarrow> round_even y \<le> round_even z"
proof -
  assume yz: "y \<le> z"
  then have "\<lfloor>y\<rfloor> \<le> \<lfloor>z\<rfloor>" by (rule floor_mono)
  then consider "\<lfloor>y\<rfloor> < \<lfloor>z\<rfloor>" | "\<lfloor>y\<rfloor> = \<lfloor>z\<rfloor>" by linarith
  then show ?thesis
  proof cases
    case 1
    then have "round_even y \<le> \<lfloor>z\<rfloor>" using round_even_floor(2)[of y] by linarith
    then show ?thesis using round_even_floor(1)[of z] by linarith
  next
    case 2
    then show ?thesis using yz unfolding round_even_def Let_def by auto
  qed
qed

lemma expo_bounds:
  assumes "0 < x"
  shows "2 powi expo x \<le> x" and "x < 2 powi (expo x + 1)"
proof -
  have "2 powi expo x \<le> x \<and> x < 2 powi (expo x + 1)"
  proof (cases "1 \<le> x")
    case True
    let ?n = "\<lfloor>x\<rfloor>"
    have n: "0 < ?n" using True by simp
    have b1: "1 \<le> bitlen ?n" using n bitlen_eq_zero_iff[of ?n] bitlen_nonneg[of ?n] by linarith
    from bitlen_bounds[OF n] have lo: "(2::int) ^ nat (bitlen ?n - 1) \<le> ?n"
      and hi: "?n < 2 ^ nat (bitlen ?n)" by auto
    have "(2::real) ^ nat (bitlen ?n - 1) \<le> of_int ?n"
      using lo by (metis of_int_le_iff of_int_numeral of_int_power)
    then have l: "(2::real) ^ nat (bitlen ?n - 1) \<le> x" by linarith
    have "?n + 1 \<le> 2 ^ nat (bitlen ?n)" using hi by simp
    then have "of_int (?n + 1) \<le> (2::real) ^ nat (bitlen ?n)"
      by (metis of_int_le_iff of_int_numeral of_int_power)
    then have h: "x < (2::real) ^ nat (bitlen ?n)" by linarith
    have e: "expo x = bitlen ?n - 1" using True by (simp add: expo_def)
    have p1: "(2::real) powi (bitlen ?n - 1) = 2 ^ nat (bitlen ?n - 1)"
      using b1 by (simp add: power_int_def)
    have p2: "(2::real) powi (bitlen ?n - 1 + 1) = 2 ^ nat (bitlen ?n)"
      using b1 by (simp add: power_int_def)
    show ?thesis unfolding e p1 p2 using l h by simp
  next
    case False
    let ?y = "1 / x"
    let ?m = "\<lceil>?y\<rceil> - 1"
    have y1: "1 < ?y" using False assms by simp
    then have m: "0 < ?m" by linarith
    have my: "of_int ?m < ?y" "?y \<le> of_int ?m + 1" by linarith+
    let ?k = "bitlen ?m"
    have k1: "1 \<le> ?k" using m bitlen_eq_zero_iff[of ?m] bitlen_nonneg[of ?m] by linarith
    from bitlen_bounds[OF m] have lo: "(2::int) ^ nat (?k - 1) \<le> ?m"
      and hi: "?m < 2 ^ nat ?k" by auto
    have "(2::real) ^ nat (?k - 1) \<le> of_int ?m"
      using lo by (metis of_int_le_iff of_int_numeral of_int_power)
    then have l: "(2::real) ^ nat (?k - 1) < ?y" using my by linarith
    have "?m + 1 \<le> 2 ^ nat ?k" using hi by simp
    then have "of_int (?m + 1) \<le> (2::real) ^ nat ?k"
      by (metis of_int_le_iff of_int_numeral of_int_power)
    moreover have "?y \<le> of_int (?m + 1)" by simp
    ultimately have h: "?y \<le> (2::real) ^ nat ?k" by linarith
    have e: "expo x = - ?k" using False by (simp add: expo_def)
    have p1: "(2::real) powi (- ?k) = 1 / 2 ^ nat ?k"
      using k1 by (simp add: power_int_def field_simps)
    have p2: "(2::real) powi (- ?k + 1) = 1 / 2 ^ nat (?k - 1)"
      using k1 by (auto simp add: power_int_def field_simps nat_diff_distrib)
    have a: "1 / 2 ^ nat ?k \<le> x"
      using h assms by (simp add: field_simps)
    have b: "x < 1 / 2 ^ nat (?k - 1)"
      using l assms by (simp add: field_simps)
    show ?thesis unfolding e p1 p2 using a b by simp
  qed
  then show "2 powi expo x \<le> x" and "x < 2 powi (expo x + 1)" by simp_all
qed

lemma expo_unique:
  assumes "0 < x" "2 powi e \<le> x" "x < 2 powi (e + 1)"
  shows "expo x = e"
proof (rule ccontr)
  assume ne: "expo x \<noteq> e"
  then consider "expo x + 1 \<le> e" | "e + 1 \<le> expo x" by linarith
  then show False
  proof cases
    case 1
    then have "(2::real) powi (expo x + 1) \<le> 2 powi e"
      by (intro power_int_increasing) simp_all
    with expo_bounds(2)[OF assms(1)] assms(2) show False by linarith
  next
    case 2
    then have "(2::real) powi (e + 1) \<le> 2 powi expo x"
      by (intro power_int_increasing) simp_all
    with expo_bounds(1)[OF assms(1)] assms(3) show False by linarith
  qed
qed

lemma expo_mono:
  assumes "0 < x" "x \<le> y"
  shows "expo x \<le> expo y"
proof (rule ccontr)
  assume "\<not> expo x \<le> expo y"
  then have "expo y + 1 \<le> expo x" by linarith
  then have "(2::real) powi (expo y + 1) \<le> 2 powi expo x"
    by (intro power_int_increasing) simp_all
  moreover have "0 < y" using assms by linarith
  ultimately show False
    using expo_bounds(1)[OF assms(1)] expo_bounds(2)[of y] assms(2) by linarith
qed

lemma qexp_mono: "0 < x \<Longrightarrow> x \<le> y \<Longrightarrow> qexp x \<le> qexp y"
  unfolding qexp_def using expo_mono[of x y] by linarith

lemma ulp_pos: "0 < ulp x"
  by (simp add: ulp_def)

lemma ulp_upper:
  assumes "0 < x"
  shows "x < 2 ^ 53 * ulp x"
proof -
  have "expo x + 1 \<le> qexp x + 53" by (simp add: qexp_def)
  then have "(2::real) powi (expo x + 1) \<le> 2 powi (qexp x + 53)"
    by (intro power_int_increasing) simp_all
  also have "\<dots> = 2 ^ 53 * ulp x"
    by (simp add: ulp_def power_int_add)
  finally show ?thesis using expo_bounds(2)[OF assms] by linarith
qed

lemma ulp_lower:
  assumes "0 < x" "- 1074 < qexp x"
  shows "2 ^ 52 * ulp x \<le> x"
proof -
  have e: "expo x = qexp x + 52" using assms(2) by (simp add: qexp_def max_def split: if_splits)
  have "(2::real) powi expo x = 2 powi (qexp x + 52)" by (simp only: e)
  also have "\<dots> = 2 ^ 52 * ulp x" by (simp add: ulp_def power_int_add)
  finally show ?thesis using expo_bounds(1)[OF assms(1)] by simp
qed

lemma qexp_ge: "- 1074 \<le> qexp x"
  by (simp add: qexp_def)

lemma fl_flp: "fl x = (if x = 0 then 0 else sgn x * flp \<bar>x\<bar>)"
  by (simp add: fl_def flp_def)

lemma flp_upper:
  assumes "0 < x"
  shows "flp x \<le> 2 ^ 53 * ulp x"
proof -
  have "x / ulp x \<le> 2 ^ 53" using ulp_upper[OF assms] ulp_pos[of x] by (simp add: field_simps)
  then have "round_even (x / ulp x) \<le> round_even (of_int (2 ^ 53))"
    by (intro round_even_mono) simp
  then have "round_even (x / ulp x) \<le> 2 ^ 53" by (simp only: round_even_of_int)
  then have "(of_int (round_even (x / ulp x)) :: real) \<le> of_int (2 ^ 53)"
    by (simp only: of_int_le_iff)
  then show ?thesis unfolding flp_def using ulp_pos[of x] by simp
qed

lemma flp_lower:
  assumes "0 < x" "- 1074 < qexp x"
  shows "2 ^ 52 * ulp x \<le> flp x"
proof -
  have "2 ^ 52 \<le> x / ulp x" using ulp_lower[OF assms] ulp_pos[of x] by (simp add: field_simps)
  then have "round_even (of_int (2 ^ 52)) \<le> round_even (x / ulp x)"
    by (intro round_even_mono) simp
  then have "2 ^ 52 \<le> round_even (x / ulp x)" by (simp only: round_even_of_int)
  then have "(of_int (2 ^ 52) :: real) \<le> of_int (round_even (x / ulp x))"
    by (simp only: of_int_le_iff)
  then show ?thesis unfolding flp_def using ulp_pos[of x] by simp
qed

lemma flp_nonneg:
  assumes "0 < x"
  shows "0 \<le> flp x"
proof -
  have "0 \<le> x / ulp x" using assms ulp_pos[of x] by simp
  then have "round_even (of_int 0) \<le> round_even (x / ulp x)"
    by (intro round_even_mono) simp
  then have "0 \<le> round_even (x / ulp x)" by (simp only: round_even_of_int)
  then show ?thesis unfolding flp_def using ulp_pos[of x] by simp
qed

lemma flp_mono:
  assumes "0 < x" "x \<le> y"
  shows "flp x \<le> flp y"
proof -
  have y: "0 < y" using assms by linarith
  from qexp_mono[OF assms] consider "qexp x = qexp y" | "qexp x + 1 \<le> qexp y" by linarith
  then show ?thesis
  proof cases
    case 1
    then have u: "ulp x = ulp y" by (simp add: ulp_def)
    have "x / ulp y \<le> y / ulp y" using assms(2) ulp_pos[of y] by (simp add: divide_right_mono)
    then have "round_even (x / ulp y) \<le> round_even (y / ulp y)" by (rule round_even_mono)
    then have "(of_int (round_even (x / ulp y)) :: real) \<le> of_int (round_even (y / ulp y))"
      by (simp only: of_int_le_iff)
    then show ?thesis unfolding flp_def u using ulp_pos[of y] by simp
  next
    case 2
    then have "(2::real) powi (qexp x + 1) \<le> 2 powi qexp y"
      by (intro power_int_increasing) simp_all
    then have d: "2 * ulp x \<le> ulp y" by (simp add: ulp_def power_int_add)
    have "- 1074 < qexp y" using 2 qexp_ge[of x] by linarith
    from flp_lower[OF y this] have "2 ^ 52 * ulp y \<le> flp y" .
    moreover have "flp x \<le> 2 ^ 53 * ulp x" by (rule flp_upper[OF assms(1)])
    ultimately show ?thesis using d by simp
  qed
qed

lemma fl_0: "fl 0 = 0"
  by (simp add: fl_def)

lemma fl_minus: "fl (- x) = - fl x"
  by (simp add: fl_def sgn_minus)

lemma fl_nonneg: "0 \<le> x \<Longrightarrow> 0 \<le> fl x"
  using flp_nonneg[of x] by (cases "x = 0") (simp_all add: fl_flp)

lemma fl_pos_eq: "0 < x \<Longrightarrow> fl x = flp x"
  by (simp add: fl_flp)

lemma fl_mono:
  assumes "x \<le> y"
  shows "fl x \<le> fl y"
proof -
  consider "0 < x" | "x \<le> 0" "0 \<le> y" | "y < 0" by linarith
  then show ?thesis
  proof cases
    case 1
    then have "0 < y" using assms by linarith
    then show ?thesis using flp_mono[OF 1 assms] 1 by (simp add: fl_pos_eq)
  next
    case 2
    have "fl x \<le> 0" using fl_nonneg[of "- x"] 2(1) by (simp add: fl_minus)
    moreover have "0 \<le> fl y" using 2(2) by (rule fl_nonneg)
    ultimately show ?thesis by linarith
  next
    case 3
    then have a: "0 < - y" "- y \<le> - x" using assms by linarith+
    then have "0 < - x" by linarith
    then have "fl (- y) \<le> fl (- x)" using flp_mono[OF a] a(1) by (simp add: fl_pos_eq)
    then show ?thesis by (simp add: fl_minus)
  qed
qed

lemma flp_of_int_ulp:
  assumes "x / ulp x = of_int j"
  shows "flp x = x"
proof -
  have "flp x = of_int j * ulp x" by (simp add: flp_def assms round_even_of_int)
  also have "\<dots> = x / ulp x * ulp x" by (simp only: assms)
  also have "\<dots> = x" using ulp_pos[of x] by simp
  finally show ?thesis .
qed

lemma flp_repr:
  assumes n: "0 < n" "n \<le> 2 ^ 53" and k: "- 1074 \<le> k"
  shows "flp (of_int n * 2 powi k) = of_int n * 2 powi k"
proof -
  let ?x = "of_int n * (2::real) powi k"
  have x: "0 < ?x" using n(1) by simp
  have nr: "(of_int n :: real) \<le> 2 ^ 53" using n(2)
    by (metis of_int_le_iff of_int_numeral of_int_power)
  define q where "q = qexp ?x"
  have u0: "ulp ?x = 2 powi q" by (simp add: ulp_def q_def)
  show ?thesis
  proof (cases "q \<le> k")
    case True
    define d where "d = nat (k - q)"
    have "k = q + int d" using True by (simp add: d_def)
    then have "(2::real) powi k = 2 powi (q + int d)" by (rule arg_cong)
    also have "\<dots> = 2 powi q * 2 ^ d" by (simp add: power_int_add)
    finally have "?x / ulp ?x = of_int n * 2 ^ d"
      unfolding u0 by simp
    also have "\<dots> = of_int (n * 2 ^ d)" by simp
    finally show ?thesis by (rule flp_of_int_ulp)
  next
    case False
    define d where "d = nat (q - k)"
    have d1: "1 \<le> d" using False by (simp add: d_def)
    have "q = k + int d" using False by (simp add: d_def)
    then have "(2::real) powi q = 2 powi (k + int d)" by (rule arg_cong)
    also have "\<dots> = 2 powi k * 2 ^ d" by (simp add: power_int_add)
    finally have u: "ulp ?x = 2 powi k * 2 ^ d" unfolding u0 .
    have "- 1074 < qexp ?x" using False k unfolding q_def by linarith
    from ulp_lower[OF x this] have "(2::real) ^ 52 * (2 powi k * 2 ^ d) \<le> of_int n * 2 powi k"
      unfolding u .
    then have "(2 ^ 52 * 2 ^ d) * (2::real) powi k \<le> of_int n * 2 powi k"
      by (simp add: mult_ac)
    then have le: "(2::real) ^ 52 * 2 ^ d \<le> of_int n"
      by (simp only: mult_le_cancel_right) simp
    then have "(2::real) ^ 52 * 2 ^ d \<le> 2 ^ 52 * 2 ^ 1" using nr by simp
    then have "(2::real) ^ d \<le> 2 ^ 1" by (simp only: mult_le_cancel_left) simp
    then have "d \<le> 1" by (simp only: power_increasing_iff)
    with d1 have d: "d = 1" by simp
    have "(of_int n :: real) = 2 ^ 53" using le nr unfolding d by simp
    then have "?x / ulp ?x = 2 ^ 52" unfolding u d by simp
    also have "\<dots> = of_int (2 ^ 52)" by simp
    finally show ?thesis by (rule flp_of_int_ulp)
  qed
qed

lemma fl_repr:
  assumes "\<bar>n\<bar> \<le> 2 ^ 53" "- 1074 \<le> k"
  shows "fl (of_int n * 2 powi k) = of_int n * 2 powi k"
proof -
  consider "n = 0" | "0 < n" | "n < 0" by linarith
  then show ?thesis
  proof cases
    case 1
    then show ?thesis by (simp add: fl_0)
  next
    case 2
    then have "0 < of_int n * (2::real) powi k" by simp
    then show ?thesis using flp_repr[OF 2 _ assms(2)] assms(1) 2 by (simp add: fl_pos_eq)
  next
    case 3
    then have p: "0 < - n" "- n \<le> 2 ^ 53" using assms(1) by linarith+
    have "0 < (of_int (- n) :: real)" using 3 by simp
    then have "0 < of_int (- n) * (2::real) powi k" by (intro mult_pos_pos) simp_all
    then have "fl (of_int (- n) * 2 powi k) = of_int (- n) * 2 powi k"
      using flp_repr[OF p assms(2)] by (simp only: fl_pos_eq)
    then have "fl (- (of_int n * 2 powi k)) = - (of_int n * 2 powi k)" by simp
    then show ?thesis by (simp only: fl_minus neg_equal_iff_equal)
  qed
qed

lemma fl_of_int: "\<bar>n\<bar> \<le> 2 ^ 53 \<Longrightarrow> fl (of_int n) = of_int n"
  using fl_repr[of n 0] by simp

lemma flp_form:
  assumes "0 < x"
  shows "\<exists>m. flp x = of_int m * 2 powi qexp x \<and> 0 \<le> m \<and> m \<le> 2 ^ 53"
proof -
  let ?m = "round_even (x / ulp x)"
  have "x / ulp x \<le> 2 ^ 53" using ulp_upper[OF assms] ulp_pos[of x] by (simp add: field_simps)
  then have "?m \<le> round_even (of_int (2 ^ 53))" by (intro round_even_mono) simp
  then have a: "?m \<le> 2 ^ 53" by (simp only: round_even_of_int)
  have "0 \<le> x / ulp x" using assms ulp_pos[of x] by simp
  then have "round_even (of_int 0) \<le> ?m" by (intro round_even_mono) simp
  then have b: "0 \<le> ?m" by (simp only: round_even_of_int)
  show ?thesis using a b by (intro exI[of _ ?m]) (simp add: flp_def ulp_def)
qed

lemma fl_form: "\<exists>m k. fl x = of_int m * 2 powi k \<and> \<bar>m\<bar> \<le> 2 ^ 53 \<and> - 1074 \<le> k"
proof -
  consider "x = 0" | "0 < x" | "x < 0" by linarith
  then show ?thesis
  proof cases
    case 1
    then show ?thesis by (intro exI[of _ 0]) (simp add: fl_0)
  next
    case 2
    from flp_form[OF 2] obtain m where "flp x = of_int m * 2 powi qexp x" "0 \<le> m" "m \<le> 2 ^ 53"
      by blast
    then show ?thesis using 2 qexp_ge[of x]
      by (intro exI[of _ m] exI[of _ "qexp x"]) (simp add: fl_pos_eq)
  next
    case 3
    then have p: "0 < - x" by simp
    from flp_form[OF p] obtain m where m: "flp (- x) = of_int m * 2 powi qexp (- x)" "0 \<le> m" "m \<le> 2 ^ 53"
      by blast
    have "fl x = - flp (- x)" using 3 by (simp add: fl_flp)
    then have "fl x = of_int (- m) * 2 powi qexp (- x)" using m(1) by simp
    then show ?thesis using m(2,3) qexp_ge[of "- x"]
      by (intro exI[of _ "- m"] exI[of _ "qexp (- x)"]) simp
  qed
qed

lemma fl_fl: "fl (fl x) = fl x"
proof -
  from fl_form[of x] obtain m k where "fl x = of_int m * 2 powi k" "\<bar>m\<bar> \<le> 2 ^ 53" "- 1074 \<le> k"
    by blast
  then show ?thesis using fl_repr[of m k] by simp
qed

lemma tiny_pos: "0 < tiny"
  unfolding tiny_def by (rule zero_less_power_int) simp

lemma tiny_le: "tiny \<le> 1 / 2 ^ 100"
proof -
  have "(2::real) powi (- 1075) \<le> 2 powi (- 100)"
    by (rule power_int_increasing) simp_all
  also have "\<dots> = 1 / 2 ^ 100" by (simp add: power_int_def field_simps)
  finally show ?thesis by (simp only: tiny_def)
qed

lemma ulp_min: "qexp x = - 1074 \<Longrightarrow> ulp x = 2 * tiny"
proof -
  assume q: "qexp x = - 1074"
  have "(2::real) powi (- 1075 + 1) = 2 powi (- 1075) * 2 powi 1"
    by (rule power_int_add) simp
  then have "(2::real) powi (- 1074) = 2 powi (- 1075) * 2" by simp
  then show ?thesis by (simp only: ulp_def q tiny_def mult.commute)
qed

lemma flp_error:
  assumes "0 < x"
  shows "\<bar>flp x - x\<bar> \<le> x / 2 ^ 53 + tiny"
proof -
  have "flp x - x = (of_int (round_even (x / ulp x)) - x / ulp x) * ulp x"
    using ulp_pos[of x] by (simp add: flp_def left_diff_distrib)
  then have "\<bar>flp x - x\<bar> = \<bar>of_int (round_even (x / ulp x)) - x / ulp x\<bar> * ulp x"
    using ulp_pos[of x] by (simp only: abs_mult abs_of_pos)
  also have "\<dots> \<le> 1 / 2 * ulp x"
    using round_even_err[of "x / ulp x"] ulp_pos[of x] by (intro mult_right_mono) simp_all
  finally have h: "\<bar>flp x - x\<bar> \<le> ulp x / 2" by simp
  have x53: "0 \<le> x / 2 ^ 53" using assms by simp
  show ?thesis
  proof (cases "- 1074 < qexp x")
    case True
    from ulp_lower[OF assms True] have "ulp x / 2 \<le> x / 2 ^ 53" by simp
    then show ?thesis using h tiny_pos by linarith
  next
    case False
    then have "qexp x = - 1074" using qexp_ge[of x] by linarith
    then have "ulp x / 2 = tiny" by (simp add: ulp_min)
    then show ?thesis using h x53 by linarith
  qed
qed

lemma fl_error: "\<bar>fl x - x\<bar> \<le> \<bar>x\<bar> / 2 ^ 53 + tiny"
proof -
  consider "x = 0" | "0 < x" | "x < 0" by linarith
  then show ?thesis
  proof cases
    case 1
    then show ?thesis using tiny_pos by (simp add: fl_0)
  next
    case 2
    then show ?thesis using flp_error[OF 2] by (simp add: fl_pos_eq)
  next
    case 3
    then have p: "0 < - x" by simp
    have "fl x = - flp (- x)" using 3 by (simp add: fl_flp)
    then have "\<bar>fl x - x\<bar> = \<bar>flp (- x) - (- x)\<bar>" by simp
    then show ?thesis using flp_error[OF p] 3 by simp
  qed
qed

lemma fl_large_int:
  assumes "2 ^ 52 \<le> \<bar>fl w\<bar>"
  shows "\<exists>j. fl w = of_int j"
proof -
  from fl_form[of w] obtain m k where f: "fl w = of_int m * 2 powi k" and m: "\<bar>m\<bar> \<le> 2 ^ 53"
    by blast
  have mr: "\<bar>of_int m :: real\<bar> \<le> 2 ^ 53" using m
    by (metis of_int_abs of_int_le_iff of_int_numeral of_int_power)
  show ?thesis
  proof (cases "0 \<le> k")
    case True
    then have "(2::real) powi k = 2 ^ nat k" by (simp add: power_int_def)
    then have "fl w = of_int (m * 2 ^ nat k)" using f by simp
    then show ?thesis by blast
  next
    case False
    then have "k + 1 \<le> 0" by simp
    then have "(2::real) powi (k + 1) \<le> 2 powi 0" by (intro power_int_increasing) simp_all
    then have "(2::real) powi k * 2 \<le> 1" by (simp add: power_int_add)
    then have h: "(2::real) powi k \<le> 1 / 2" by simp
    have "\<bar>fl w\<bar> = \<bar>of_int m :: real\<bar> * 2 powi k" unfolding f by (simp add: abs_mult)
    also have "\<dots> \<le> \<bar>of_int m :: real\<bar> * (1 / 2)" using h by (intro mult_left_mono) simp_all
    finally have "2 ^ 52 \<le> \<bar>of_int m :: real\<bar> * (1 / 2)" using assms by linarith
    then have "\<bar>of_int m :: real\<bar> = 2 ^ 53" using mr by simp
    moreover have "1 / 2 \<le> (2::real) powi k"
    proof -
      have "2 ^ 52 \<le> \<bar>of_int m :: real\<bar> * 2 powi k" using assms \<open>\<bar>fl w\<bar> = \<bar>of_int m :: real\<bar> * 2 powi k\<close> by simp
      then have "2 ^ 52 \<le> 2 ^ 53 * (2::real) powi k" using \<open>\<bar>of_int m :: real\<bar> = 2 ^ 53\<close> by simp
      then show ?thesis by simp
    qed
    ultimately have "\<bar>fl w\<bar> = 2 ^ 52" using h \<open>\<bar>fl w\<bar> = \<bar>of_int m :: real\<bar> * 2 powi k\<close> by simp
    then have "fl w = of_int (2 ^ 52) \<or> fl w = of_int (- (2 ^ 52))" by (simp add: abs_if split: if_splits)
    then show ?thesis by blast
  qed
qed

lemma fl_1: "fl 1 = 1"
  using fl_of_int[of 1] by simp

lemma fl_numeral_small: "numeral w \<le> (2::int) ^ 53 \<Longrightarrow> fl (numeral w) = numeral w"
  using fl_of_int[of "numeral w"] by simp

lemma fadd_nonneg: "0 \<le> a \<Longrightarrow> 0 \<le> b \<Longrightarrow> 0 \<le> fadd a b"
  unfolding fadd_def by (intro fl_nonneg add_nonneg_nonneg)

lemma fmul_nonneg: "0 \<le> a \<Longrightarrow> 0 \<le> b \<Longrightarrow> 0 \<le> fmul a b"
  unfolding fmul_def by (intro fl_nonneg mult_nonneg_nonneg)

lemma fdiv_nonneg: "0 \<le> a \<Longrightarrow> 0 \<le> b \<Longrightarrow> 0 \<le> fdiv a b"
  unfolding fdiv_def by (intro fl_nonneg divide_nonneg_nonneg)

lemma fl_fadd: "fl (fadd a b) = fadd a b"
  by (simp add: fadd_def fl_fl)

lemma fl_fmul: "fl (fmul a b) = fmul a b"
  by (simp add: fmul_def fl_fl)

lemma fl_fdiv: "fl (fdiv a b) = fdiv a b"
  by (simp add: fdiv_def fl_fl)

lemma Math_round_mono: "x \<le> y \<Longrightarrow> Math_round x \<le> Math_round y"
  unfolding Math_round_def by (simp add: floor_mono)

lemma Math_round_upper: "Math_round x \<le> x + 1 / 2"
  unfolding Math_round_def by linarith

lemma Math_round_lower: "x - 1 / 2 < Math_round x"
  unfolding Math_round_def by linarith

lemma Math_round_nonneg: "0 \<le> x \<Longrightarrow> 0 \<le> Math_round x"
  unfolding Math_round_def by simp

lemma Math_round_of_int: "Math_round (of_int j) = of_int j"
  unfolding Math_round_def by simp

lemma round_cents_nonneg: "0 \<le> x \<Longrightarrow> 0 \<le> round_cents x"
  unfolding round_cents_def
  by (intro fdiv_nonneg Math_round_nonneg fmul_nonneg) simp_all

lemma fl_of_int_real:
  assumes "\<bar>of_int n :: real\<bar> \<le> 2 ^ 53"
  shows "fl (of_int n) = of_int n"
proof -
  from assms have "(of_int \<bar>n\<bar> :: real) \<le> of_int (2 ^ 53)" by simp
  then have "\<bar>n\<bar> \<le> 2 ^ 53" by (simp only: of_int_le_iff)
  then show ?thesis by (rule fl_of_int)
qed

lemma fl_half_int:
  assumes "\<bar>of_int n :: real\<bar> \<le> 2 ^ 53"
  shows "fl (of_int n / 2) = of_int n / 2"
proof -
  from assms have "(of_int \<bar>n\<bar> :: real) \<le> of_int (2 ^ 53)" by simp
  then have "\<bar>n\<bar> \<le> 2 ^ 53" by (simp only: of_int_le_iff)
  then have "fl (of_int n * 2 powi (- 1)) = of_int n * 2 powi (- 1)" by (rule fl_repr) simp
  then show ?thesis by (simp add: power_int_minus field_simps)
qed

lemma fl_dyadic:
  assumes "\<bar>n\<bar> \<le> 2 ^ 53" and "k \<le> 1074"
  shows "fl (of_int n / 2 ^ k) = of_int n / 2 ^ k"
proof -
  have "fl (of_int n * 2 powi (- int k)) = of_int n * 2 powi (- int k)"
    using assms by (intro fl_repr) simp_all
  then show ?thesis by (simp add: power_int_minus field_simps)
qed

lemma fl_pow2: "fl (2 ^ k) = 2 ^ k"
  using fl_repr[of 1 "int k"] by simp

lemma fl_abs_le_pow2:
  assumes "\<bar>x\<bar> \<le> 2 ^ k"
  shows "\<bar>fl x\<bar> \<le> 2 ^ k"
proof -
  have "fl x \<le> fl (2 ^ k)" by (rule fl_mono) (use assms in linarith)
  moreover have "fl (- (2 ^ k)) \<le> fl x" by (rule fl_mono) (use assms in linarith)
  ultimately show ?thesis by (simp add: fl_pow2 fl_minus)
qed

lemma fl_err_small:
  assumes "\<bar>x\<bar> \<le> 2 ^ 35"
  shows "\<bar>fl x - x\<bar> \<le> 1 / 2 ^ 17"
proof -
  have "\<bar>x\<bar> / 2 ^ 53 \<le> 2 ^ 35 / 2 ^ 53" using assms by (rule divide_right_mono) simp
  also have "\<dots> = (1::real) / 2 ^ 18" by simp
  finally have a: "\<bar>x\<bar> / 2 ^ 53 \<le> 1 / 2 ^ 18" .
  have "tiny \<le> 1 / 2 ^ 100" by (rule tiny_le)
  also have "\<dots> \<le> (1::real) / 2 ^ 18" by simp
  finally have b: "tiny \<le> 1 / 2 ^ 18" .
  have "\<bar>fl x - x\<bar> \<le> \<bar>x\<bar> / 2 ^ 53 + tiny" by (rule fl_error)
  with a b have "\<bar>fl x - x\<bar> \<le> 1 / 2 ^ 18 + 1 / 2 ^ 18" by linarith
  then show ?thesis by simp
qed

lemma fl_int_int: "\<exists>j. fl (of_int k) = of_int j"
proof (cases "2 ^ 52 \<le> \<bar>fl (of_int k)\<bar>")
  case True then show ?thesis by (rule fl_large_int)
next
  case False
  have "\<bar>of_int k :: real\<bar> \<le> 2 ^ 53"
  proof (rule ccontr)
    assume "\<not> \<bar>of_int k :: real\<bar> \<le> 2 ^ 53"
    then consider "(2::real) ^ 53 \<le> of_int k" | "(of_int k :: real) \<le> - (2 ^ 53)" by linarith
    then show False
    proof cases
      case 1
      then have "fl (2 ^ 53) \<le> fl (of_int k)" by (rule fl_mono)
      then have "(2::real) ^ 53 \<le> fl (of_int k)" by (simp only: fl_pow2)
      with False show False by simp
    next
      case 2
      then have "fl (of_int k) \<le> fl (- (2 ^ 53))" by (rule fl_mono)
      then have "fl (of_int k) \<le> - ((2::real) ^ 53)" by (simp only: fl_minus fl_pow2)
      with False show False by simp
    qed
  qed
  then have "fl (of_int k) = of_int k" by (rule fl_of_int_real)
  then show ?thesis by blast
qed

lemma fl_100: "fl 100 = 100"
  using fl_of_int[of 100] by simp

lemma fl_12: "fl 12 = 12"
  using fl_of_int[of 12] by simp

lemma fl_quarter: "fl (1 / 4) = 1 / 4"
  using fl_repr[of 1 "- 2"] by (simp add: power_int_minus)

lemma int_abs_less: "\<bar>of_int d :: real\<bar> < of_int n + 1 \<Longrightarrow> \<bar>of_int d :: real\<bar> \<le> of_int n"
proof -
  assume "\<bar>of_int d :: real\<bar> < of_int n + 1"
  then have "(of_int \<bar>d\<bar> :: real) < of_int (n + 1)" by simp
  then have "\<bar>d\<bar> < n + 1" by (simp only: of_int_less_iff)
  then have "\<bar>d\<bar> \<le> n" by simp
  then have "(of_int \<bar>d\<bar> :: real) \<le> of_int n" by (simp only: of_int_le_iff)
  then show ?thesis by simp
qed

lemma Math_round_close:
  assumes "\<bar>u - v\<bar> < 1"
  shows "\<bar>Math_round u - Math_round v\<bar> \<le> 1"
proof -
  let ?d = "\<lfloor>u + 1 / 2\<rfloor> - \<lfloor>v + 1 / 2\<rfloor>"
  have eq: "Math_round u - Math_round v = of_int ?d" by (simp add: Math_round_def)
  have "\<bar>Math_round u - Math_round v\<bar> < 2"
    using Math_round_upper[of u] Math_round_lower[of u] Math_round_upper[of v]
      Math_round_lower[of v] assms by linarith
  then have "\<bar>of_int ?d :: real\<bar> < of_int 1 + 1" unfolding eq by simp
  then have "\<bar>of_int ?d :: real\<bar> \<le> of_int 1" by (rule int_abs_less)
  then show ?thesis unfolding eq by simp
qed

lemma round_gap:
  assumes "L = of_int i" and "\<bar>L - Math_round y\<bar> < of_int c + 1"
  shows "\<bar>L - Math_round y\<bar> \<le> of_int c"
proof -
  have eq: "L - Math_round y = of_int (i - \<lfloor>y + 1 / 2\<rfloor>)"
    by (simp add: assms(1) Math_round_def)
  from assms(2) have "\<bar>of_int (i - \<lfloor>y + 1 / 2\<rfloor>) :: real\<bar> < of_int c + 1" unfolding eq .
  then have "\<bar>of_int (i - \<lfloor>y + 1 / 2\<rfloor>) :: real\<bar> \<le> of_int c" by (rule int_abs_less)
  then show ?thesis unfolding eq .
qed

lemma fl_round_cents: "fl (round_cents c) = round_cents c"
  by (simp add: round_cents_def fl_fdiv)

lemma round_cents_form: "\<exists>n. round_cents c = fl (of_int n / 100)"
proof -
  obtain j where "fl (of_int \<lfloor>fmul c 100 + 1 / 2\<rfloor>) = of_int j" using fl_int_int by blast
  then have "round_cents c = fl (of_int j / 100)"
    by (simp add: round_cents_def Math_round_def fdiv_def fl_100)
  then show ?thesis by blast
qed

lemma cents_frac:
  assumes x: "x = fl (of_int n / 100)" and b: "\<bar>x\<bar> \<le> 2 ^ 31"
  shows "x - Math_round x \<le> 49 / 100 + 1 / 2 ^ 17"
proof -
  define k where "k = \<lfloor>x + 1 / 2\<rfloor>"
  have r: "Math_round x = of_int k" by (simp add: Math_round_def k_def)
  have k1: "of_int k \<le> x + 1 / 2" and k2: "x + 1 / 2 < of_int k + 1"
    unfolding k_def by linarith+
  have b': "\<bar>x\<bar> \<le> 2147483648" using b by simp
  have "\<bar>of_int (2 * k + 1) :: real\<bar> \<le> 9007199254740992" using k1 k2 b' by simp
  then have "\<bar>of_int (2 * k + 1) :: real\<bar> \<le> 2 ^ 53" by simp
  then have h: "fl (of_int (2 * k + 1) / 2) = of_int (2 * k + 1) / 2" by (rule fl_half_int)
  have lt: "(of_int n :: real) / 100 < of_int (2 * k + 1) / 2"
  proof (rule ccontr)
    assume "\<not> (of_int n :: real) / 100 < of_int (2 * k + 1) / 2"
    then have "(of_int (2 * k + 1) :: real) / 2 \<le> of_int n / 100" by simp
    then have "fl (of_int (2 * k + 1) / 2) \<le> fl (of_int n / 100)" by (rule fl_mono)
    then have "(of_int (2 * k + 1) :: real) / 2 \<le> x" unfolding h x .
    with k2 show False by simp
  qed
  then have "(of_int (2 * n) :: real) < of_int (200 * k + 100)" by simp
  then have "2 * n < 200 * k + 100" by (simp only: of_int_less_iff)
  then have "n \<le> 100 * k + 49" by linarith
  then have "(of_int n :: real) \<le> of_int (100 * k + 49)" by (simp only: of_int_le_iff)
  then have up: "(of_int n :: real) / 100 \<le> of_int k + 49 / 100" by simp
  have lo: "- (2 ^ 32) \<le> (of_int n :: real) / 100"
  proof (rule ccontr)
    assume "\<not> - (2 ^ 32) \<le> (of_int n :: real) / 100"
    then have "(of_int n :: real) / 100 \<le> - (2 ^ 32)" by simp
    then have "fl (of_int n / 100) \<le> fl (- (2 ^ 32))" by (rule fl_mono)
    then have "x \<le> - (2 ^ 32)" unfolding x by (simp only: fl_minus fl_pow2)
    with b' show False by simp
  qed
  have "\<bar>(of_int n :: real) / 100\<bar> \<le> 34359738368" using up lo k1 b' by simp
  then have "\<bar>(of_int n :: real) / 100\<bar> \<le> 2 ^ 35" by simp
  then have "\<bar>fl (of_int n / 100) - of_int n / 100\<bar> \<le> 1 / 2 ^ 17" by (rule fl_err_small)
  then have "x \<le> of_int n / 100 + 1 / 2 ^ 17" unfolding x by linarith
  with up show ?thesis unfolding r by linarith
qed

section \<open>Roundings of the numbers in the examples\<close>

text \<open>
  A number between \<open>2 ^ 52 / 2 ^ j\<close> and \<open>2 ^ 53 / 2 ^ j\<close> is rounded to a multiple of
  \<open>1 / 2 ^ j\<close>. The lemmas after it apply this to every intermediate result of the
  examples, which makes the examples computable by rewriting.
\<close>

lemma fl_cert:
  assumes lo: "2 ^ 52 \<le> x * 2 ^ j" and hi: "x * 2 ^ j < 2 ^ 53" and j: "j \<le> 1074"
    and r: "round_even (x * 2 ^ j) = n"
  shows "fl x = of_int n / 2 ^ j"
proof -
  have "(0::real) < 2 ^ 52" by simp
  with lo have "0 < x * 2 ^ j" by linarith
  then have x: "0 < x" by (simp add: zero_less_mult_iff)
  have p: "(2::real) powi (52 - int j) = 2 ^ 52 / 2 ^ j"
    by (simp add: power_int_diff)
  have p1: "(2::real) powi (52 - int j + 1) = 2 ^ 53 / 2 ^ j"
    by (simp add: power_int_add power_int_diff)
  have "expo x = 52 - int j"
  proof (rule expo_unique[OF x])
    show "2 powi (52 - int j) \<le> x" unfolding p using lo by (simp add: field_simps)
    show "x < 2 powi (52 - int j + 1)" unfolding p1 using hi by (simp add: field_simps)
  qed
  then have "qexp x = - int j" using j by (simp add: qexp_def)
  then have u: "ulp x = 1 / 2 ^ j" by (simp add: ulp_def power_int_minus field_simps)
  have "fl x = flp x" using x by (rule fl_pos_eq)
  also have "\<dots> = of_int n / 2 ^ j" by (simp add: flp_def u r)
  finally show ?thesis .
qed

lemma tier_roundings:
  "fl (5 / 96) = of_int 7505999378950827 / 2 ^ 57"
  "fl (1 / 8) = of_int 4503599627370496 / 2 ^ 55"
  "fl (3 / 20) = of_int 5404319552844595 / 2 ^ 55"
  "fl (1 / 4) = of_int 4503599627370496 / 2 ^ 54"
  "fl (1 / 2) = of_int 4503599627370496 / 2 ^ 53"
  "fl (5 / 8) = of_int 5629499534213120 / 2 ^ 53"
  "fl (9 / 10) = of_int 8106479329266893 / 2 ^ 53"
  "fl (4255901647865119 / 4503599627370496) = of_int 8511803295730238 / 2 ^ 53"
  "fl (38333754150901659668312092531753 / 40564819207303340847894502572032) = of_int 8511803295730238 / 2 ^ 53"
  "fl (1) = of_int 4503599627370496 / 2 ^ 52"
  "fl (21 / 20) = of_int 4728779608739021 / 2 ^ 52"
  "fl (23 / 20) = of_int 5179139571476070 / 2 ^ 52"
  "fl (5 / 4) = of_int 5629499534213120 / 2 ^ 52"
  "fl (21 / 16) = of_int 5910974510923776 / 2 ^ 52"
  "fl (23643898043695105 / 18014398509481984) = of_int 5910974510923776 / 2 ^ 52"
  "fl (2) = of_int 4503599627370496 / 2 ^ 51"
  "fl (3) = of_int 6755399441055744 / 2 ^ 51"
  "fl (4) = of_int 4503599627370496 / 2 ^ 50"
  "fl (9 / 2) = of_int 5066549580791808 / 2 ^ 50"
  "fl (6) = of_int 6755399441055744 / 2 ^ 50"
  "fl (4278419646001971 / 562949953421312) = of_int 8556839292003942 / 2 ^ 50"
  "fl (38 / 5) = of_int 8556839292003942 / 2 ^ 50"
  "fl (10) = of_int 5629499534213120 / 2 ^ 49"
  "fl (3191926235898839 / 281474976710656) = of_int 6383852471797678 / 2 ^ 49"
  "fl (12) = of_int 6755399441055744 / 2 ^ 49"
  "fl (18) = of_int 5066549580791808 / 2 ^ 48"
  "fl (1516094593307771 / 70368744177664) = of_int 6064378373231084 / 2 ^ 48"
  "fl (24) = of_int 6755399441055744 / 2 ^ 48"
  "fl (30) = of_int 8444249301319680 / 2 ^ 48"
  "fl (4813222101752217 / 140737488355328) = of_int 4813222101752217 / 2 ^ 47"
  "fl (38505776814017739 / 1125899906842624) = of_int 4813222101752217 / 2 ^ 47"
  "fl (75 / 2) = of_int 5277655813324800 / 2 ^ 47"
  "fl (315 / 8) = of_int 5541538603991040 / 2 ^ 47"
  "fl (1529464654701527 / 35184372088832) = of_int 6117858618806108 / 2 ^ 47"
  "fl (45) = of_int 6333186975989760 / 2 ^ 47"
  "fl (3191926235898839 / 70368744177664) = of_int 6383852471797678 / 2 ^ 47"
  "fl (1134 / 25) = of_int 6383852471797678 / 2 ^ 47"
  "fl (12767704943595357 / 281474976710656) = of_int 6383852471797678 / 2 ^ 47"
  "fl (1604407367250739 / 35184372088832) = of_int 6417629469002956 / 2 ^ 47"
  "fl (12835258938005913 / 281474976710656) = of_int 6417629469002956 / 2 ^ 47"
  "fl (48) = of_int 6755399441055744 / 2 ^ 47"
  "fl (50) = of_int 7036874417766400 / 2 ^ 47"
  "fl (60) = of_int 8444249301319680 / 2 ^ 47"
  "fl (70) = of_int 4925812092436480 / 2 ^ 46"
  "fl (1452989955950947 / 17592186044416) = of_int 5811959823803788 / 2 ^ 46"
  "fl (4309 / 50) = of_int 6064378373231084 / 2 ^ 46"
  "fl (1516094593307771 / 17592186044416) = of_int 6064378373231084 / 2 ^ 46"
  "fl (6828199958129357269215725072941 / 79228162514264337593543950336) = of_int 6064659848207794 / 2 ^ 46"
  "fl (3032329924103897 / 35184372088832) = of_int 6064659848207794 / 2 ^ 46"
  "fl (1604407367250739 / 17592186044416) = of_int 6417629469002956 / 2 ^ 46"
  "fl (321582412112855 / 3298534883328) = of_int 6860424791740907 / 2 ^ 46"
  "fl (100) = of_int 7036874417766400 / 2 ^ 46"
  "fl (120) = of_int 8444249301319680 / 2 ^ 46"
  "fl (6920827562524409 / 52776558133248) = of_int 4613885041682939 / 2 ^ 45"
  "fl (1113 / 8) = of_int 4895025766858752 / 2 ^ 45"
  "fl (835 / 6) = of_int 4896491782362453 / 2 ^ 45"
  "fl (575 / 4) = of_int 5057753487769600 / 2 ^ 45"
  "fl (150) = of_int 5277655813324800 / 2 ^ 45"
  "fl (1991495933367419 / 13194139533312) = of_int 5310655822313117 / 2 ^ 45"
  "fl (315 / 2) = of_int 5541538603991040 / 2 ^ 45"
  "fl (8446448324575231 / 52776558133248) = of_int 5630965549716821 / 2 ^ 45"
  "fl (3491169320514355 / 17592186044416) = of_int 6982338641028710 / 2 ^ 45"
  "fl (3969 / 20) = of_int 6982338641028710 / 2 ^ 45"
  "fl (446869673025837495 / 2251799813685248) = of_int 6982338641028711 / 2 ^ 45"
  "fl (6982338641028711 / 35184372088832) = of_int 6982338641028711 / 2 ^ 45"
  "fl (32523794537405621115327751926055 / 158456325028528675187087900672) = of_int 7221733108721123 / 2 ^ 45"
  "fl (210) = of_int 7388718138654720 / 2 ^ 45"
  "fl (1325 / 6) = of_int 7769882169617067 / 2 ^ 45"
  "fl (1529701049701499 / 6597069766656) = of_int 8158405598407995 / 2 ^ 45"
  "fl (4512606826625236825 / 18014398509481984) = of_int 8813685208252416 / 2 ^ 45"
  "fl (8124016539729919 / 26388279066624) = of_int 5416011026486613 / 2 ^ 44"
  "fl (4265127649933787 / 13194139533312) = of_int 5686836866578383 / 2 ^ 44"
  "fl (450) = of_int 7916483719987200 / 2 ^ 44"
  "fl (34722753127026522875 / 72057594037927936) = of_int 8477234650152960 / 2 ^ 44"
  "fl (20043576307752421782065221648515 / 39614081257132168796771975168) = of_int 8901135965079208 / 2 ^ 44"
  "fl (5103 / 10) = of_int 8977292538465485 / 2 ^ 44"
  "fl (8977292538465485 / 17592186044416) = of_int 8977292538465485 / 2 ^ 44"
  "fl (574546722461791065 / 1125899906842624) = of_int 8977292538465485 / 2 ^ 44"
  "fl (4588393964104581 / 8796093022208) = of_int 4588393964104581 / 2 ^ 43"
  "fl (146828606851346599 / 281474976710656) = of_int 4588393964104581 / 2 ^ 43"
  "fl (540) = of_int 4749890231992320 / 2 ^ 43"
  "fl (4887637048720097 / 8796093022208) = of_int 4887637048720097 / 2 ^ 43"
  "fl (39101096389760779 / 70368744177664) = of_int 4887637048720097 / 2 ^ 43"
  "fl (1125 / 2) = of_int 4947802324992000 / 2 ^ 43"
  "fl (4725 / 8) = of_int 5195192441241600 / 2 ^ 43"
  "fl (5195236421706711 / 8796093022208) = of_int 5195236421706711 / 2 ^ 43"
  "fl (59063 / 100) = of_int 5195236421706711 / 2 ^ 43"
  "fl (2457 / 4) = of_int 5403000138891264 / 2 ^ 43"
  "fl (1383168035556163675 / 2251799813685248) = of_int 5403000138891264 / 2 ^ 43"
  "fl (650) = of_int 5717460464435200 / 2 ^ 43"
  "fl (1625 / 2) = of_int 7146825580544000 / 2 ^ 43"
  "fl (6825 / 8) = of_int 7504166859571200 / 2 ^ 43"
  "fl (7504210840036311 / 8796093022208) = of_int 7504210840036311 / 2 ^ 43"
  "fl (85313 / 100) = of_int 7504210840036311 / 2 ^ 43"
  "fl (8528427911542209 / 8796093022208) = of_int 8528427911542209 / 2 ^ 43"
  "fl (19204312382238815457712255826657 / 19807040628566084398385987584) = of_int 8528427911542209 / 2 ^ 43"
  "fl (96957 / 100) = of_int 8528427911542211 / 2 ^ 43"
  "fl (8528427911542211 / 8796093022208) = of_int 8528427911542211 / 2 ^ 43"
  "fl (4358969867852841 / 4398046511104) = of_int 8717939735705682 / 2 ^ 43"
  "fl (69743517885645459 / 70368744177664) = of_int 8717939735705682 / 2 ^ 43"
  "fl (1000) = of_int 8796093022208000 / 2 ^ 43"
  "fl (4512395720392703 / 4398046511104) = of_int 4512395720392703 / 2 ^ 42"
  "fl (72198331526283255 / 70368744177664) = of_int 4512395720392703 / 2 ^ 42"
  "fl (4223 / 4) = of_int 4643237604098048 / 2 ^ 42"
  "fl (18572950416392193 / 17592186044416) = of_int 4643237604098048 / 2 ^ 42"
  "fl (321582412112855 / 274877906944) = of_int 5145318593805680 / 2 ^ 42"
  "fl (10290637187611361 / 8796093022208) = of_int 5145318593805680 / 2 ^ 42"
  "fl (1350) = of_int 5937362789990400 / 2 ^ 42"
  "fl (24072443695737075 / 17592186044416) = of_int 6018110923934269 / 2 ^ 42"
  "fl (6018110923934269 / 4398046511104) = of_int 6018110923934269 / 2 ^ 42"
  "fl (15584318215840192824207993221415 / 9903520314283042199192993792) = of_int 6920827562524409 / 2 ^ 42"
  "fl (6920827562524409 / 4398046511104) = of_int 6920827562524409 / 2 ^ 42"
  "fl (3337 / 2) = of_int 7338140603777024 / 2 ^ 42"
  "fl (3339 / 2) = of_int 7342538650288128 / 2 ^ 42"
  "fl (1670) = of_int 7344737673543680 / 2 ^ 42"
  "fl (3375 / 2) = of_int 7421703487488000 / 2 ^ 42"
  "fl (1725) = of_int 7586630231654400 / 2 ^ 42"
  "fl (14175 / 8) = of_int 7792788661862400 / 2 ^ 42"
  "fl (44297 / 25) = of_int 7792810652094956 / 2 ^ 42"
  "fl (1948202663023739 / 1099511627776) = of_int 7792810652094956 / 2 ^ 42"
  "fl (1991495933367419 / 1099511627776) = of_int 7965983733469676 / 2 ^ 42"
  "fl (3675 / 2) = of_int 8081410464153600 / 2 ^ 42"
  "fl (8446448324575231 / 4398046511104) = of_int 8446448324575231 / 2 ^ 42"
  "fl (2162290771091259225 / 1125899906842624) = of_int 8446448324575231 / 2 ^ 42"
  "fl (2121375744398459 / 1099511627776) = of_int 8485502977593836 / 2 ^ 42"
  "fl (2650) = of_int 5827411627212800 / 2 ^ 41"
  "fl (24475216795223983 / 8796093022208) = of_int 6118804198805996 / 2 ^ 41"
  "fl (1529701049701499 / 549755813888) = of_int 6118804198805996 / 2 ^ 41"
  "fl (6425 / 2) = of_int 7064362208460800 / 2 ^ 41"
  "fl (29670453216930695 / 8796093022208) = of_int 7417613304232674 / 2 ^ 41"
  "fl (3708806652116337 / 1099511627776) = of_int 7417613304232674 / 2 ^ 41"
  "fl (8124016539729919 / 2199023255552) = of_int 8124016539729919 / 2 ^ 41"
  "fl (16637985873366874875 / 4503599627370496) = of_int 8124016539729919 / 2 ^ 41"
  "fl (4265127649933787 / 1099511627776) = of_int 8530255299867574 / 2 ^ 41"
  "fl (9604213647464701717572225777795 / 2475880078570760549798248448) = of_int 8530255299867574 / 2 ^ 41"
  "fl (4000) = of_int 8796093022208000 / 2 ^ 41"
  "fl (79798155897470975 / 17592186044416) = of_int 4987384743591936 / 2 ^ 40"
  "fl (4536) = of_int 4987384743591936 / 2 ^ 40"
  "fl (7600) = of_int 8356288371097600 / 2 ^ 40"
  "fl (8618) = of_int 4737795604086784 / 2 ^ 39"
  "fl (75808248102597425 / 8796093022208) = of_int 4738015506412339 / 2 ^ 39"
  "fl (10000) = of_int 5497558138880000 / 2 ^ 39"
  "fl (15000) = of_int 8246337208320000 / 2 ^ 39"
  "fl (15750) = of_int 8658654068736000 / 2 ^ 39"
  "fl (19845) = of_int 5454952063303680 / 2 ^ 38"
  "fl (174558466025717775 / 8796093022208) = of_int 5454952063303680 / 2 ^ 38"
  "fl (51030) = of_int 7013509795676160 / 2 ^ 37"
  "fl (224432313461637125 / 4398046511104) = of_int 7013509795676160 / 2 ^ 37"
  "fl (56250) = of_int 7730941132800000 / 2 ^ 37"
  "fl (118125 / 2) = of_int 8117488189440000 / 2 ^ 37"
  "fl (59063) = of_int 8117556908916736 / 2 ^ 37"
  "fl (61425) = of_int 8442187717017600 / 2 ^ 37"
  "fl (81250) = of_int 5583457484800000 / 2 ^ 36"
  "fl (170625 / 2) = of_int 5862630359040000 / 2 ^ 36"
  "fl (85313) = of_int 5862664718778368 / 2 ^ 36"
  "fl (213210697788555225 / 2199023255552) = of_int 6662834305892351 / 2 ^ 36"
  "fl (96957) = of_int 6662834305892352 / 2 ^ 36"
  "fl (166850) = of_int 5732922346700800 / 2 ^ 35"
  "fl (168750) = of_int 5798205849600000 / 2 ^ 35"
  "fl (354375 / 2) = of_int 6088116142080000 / 2 ^ 35"
  "fl (177188) = of_int 6088133321949184 / 2 ^ 35"
  by (rule fl_cert; simp add: round_even_def)+

lemma tier_roundings_more:
  "fl (11 / 10) = of_int 4953959590107546 / 2 ^ 52"
  "fl (11713091546108841110981418376233 / 10141204801825835211973625643008) = of_int 5201657569612924 / 2 ^ 52"
  "fl (1300414392403231 / 1125899906842624) = of_int 5201657569612924 / 2 ^ 52"
  "fl (4876553971512115 / 140737488355328) = of_int 4876553971512115 / 2 ^ 47"
  "fl (3505023167024333 / 26388279066624) = of_int 4673364222699111 / 2 ^ 45"
  "fl (4876553971512115 / 35184372088832) = of_int 4876553971512115 / 2 ^ 45"
  "fl (693 / 5) = of_int 4876553971512115 / 2 ^ 45"
  "fl (1219138492878029 / 8796093022208) = of_int 4876553971512116 / 2 ^ 45"
  "fl (19506215886048465 / 140737488355328) = of_int 4876553971512116 / 2 ^ 45"
  "fl (5384528343544627 / 26388279066624) = of_int 7179371124726169 / 2 ^ 45"
  "fl (2502197094236815 / 8796093022208) = of_int 5004394188473630 / 2 ^ 44"
  "fl (35276537429882479588011381054505 / 79228162514264337593543950336) = of_int 7832964816741335 / 2 ^ 44"
  "fl (2079 / 4) = of_int 4571769348292608 / 2 ^ 43"
  "fl (292593238290726975 / 562949953421312) = of_int 4571769348292609 / 2 ^ 43"
  "fl (4571769348292609 / 8796093022208) = of_int 4571769348292609 / 2 ^ 43"
  "fl (3003 / 4) = of_int 6603666836422656 / 2 ^ 43"
  "fl (6603666836422657 / 8796093022208) = of_int 6603666836422657 / 2 ^ 43"
  "fl (422634677531050075 / 562949953421312) = of_int 6603666836422657 / 2 ^ 43"
  "fl (6237 / 4) = of_int 6857654022438912 / 2 ^ 42"
  "fl (6857654022438913 / 4398046511104) = of_int 6857654022438913 / 2 ^ 42"
  "fl (877779714872180925 / 562949953421312) = of_int 6857654022438913 / 2 ^ 42"
  "fl (224321482689557299 / 140737488355328) = of_int 7010046334048666 / 2 ^ 42"
  "fl (3505023167024333 / 2199023255552) = of_int 7010046334048666 / 2 ^ 42"
  "fl (3733611634438963 / 2199023255552) = of_int 7467223268877926 / 2 ^ 42"
  "fl (59737786151023411 / 35184372088832) = of_int 7467223268877926 / 2 ^ 42"
  "fl (5384528343544627 / 2199023255552) = of_int 5384528343544627 / 2 ^ 41"
  "fl (6527470680617779 / 2199023255552) = of_int 6527470680617779 / 2 ^ 41"
  "fl (7506591282710445 / 2199023255552) = of_int 7506591282710445 / 2 ^ 41"
  "fl (16903340851818687455977257524265 / 4951760157141521099596496896) = of_int 7506591282710445 / 2 ^ 41"
  "fl (13860) = of_int 7619615580487680 / 2 ^ 39"
  "fl (30478462321950725 / 2199023255552) = of_int 7619615580487681 / 2 ^ 39"
  "fl (51975) = of_int 7143389606707200 / 2 ^ 37"
  "fl (114294233707315225 / 2199023255552) = of_int 7143389606707202 / 2 ^ 37"
  "fl (75075) = of_int 5159114715955200 / 2 ^ 36"
  "fl (165091670910566425 / 2199023255552) = of_int 5159114715955201 / 2 ^ 36"
  "fl (155925) = of_int 5357542205030400 / 2 ^ 35"
  "fl (171441350560972825 / 1099511627776) = of_int 5357542205030401 / 2 ^ 35"
  by (rule fl_cert; simp add: round_even_def)+

lemma other_roundings:
  "fl (6004799503160661 / 4503599627370496) = of_int 6004799503160661 / 2 ^ 52"
  "fl (4 / 3) = of_int 6004799503160661 / 2 ^ 52"
  "fl (5 / 3) = of_int 7505999378950827 / 2 ^ 52"
  "fl (7505999378950827 / 4503599627370496) = of_int 7505999378950827 / 2 ^ 52"
  "fl (21 / 10) = of_int 4728779608739021 / 2 ^ 51"
  "fl (4728779608739021 / 2251799813685248) = of_int 4728779608739021 / 2 ^ 51"
  "fl (5 / 2) = of_int 5629499534213120 / 2 ^ 51"
  "fl (6004799503160661 / 2251799813685248) = of_int 6004799503160661 / 2 ^ 51"
  "fl (35494216806390426319367435120367 / 10141204801825835211973625643008) = of_int 7881299347898369 / 2 ^ 51"
  "fl (7881299347898369 / 2251799813685248) = of_int 7881299347898369 / 2 ^ 51"
  "fl (5) = of_int 5629499534213120 / 2 ^ 50"
  "fl (6004799503160661 / 1125899906842624) = of_int 6004799503160661 / 2 ^ 50"
  "fl (3127499741229511 / 562949953421312) = of_int 6254999482459022 / 2 ^ 50"
  "fl (50 / 9) = of_int 6254999482459022 / 2 ^ 50"
  "fl (7881299347898369 / 1125899906842624) = of_int 7881299347898369 / 2 ^ 50"
  "fl (8) = of_int 4503599627370496 / 2 ^ 49"
  "fl (3127499741229511 / 281474976710656) = of_int 6254999482459022 / 2 ^ 49"
  "fl (15) = of_int 8444249301319680 / 2 ^ 49"
  "fl (3135 / 128) = of_int 6893937906155520 / 2 ^ 48"
  "fl (49 / 2) = of_int 6896136929411072 / 2 ^ 48"
  "fl (25) = of_int 7036874417766400 / 2 ^ 48"
  "fl (87 / 2) = of_int 6122080743456768 / 2 ^ 47"
  "fl (95) = of_int 6685030696878080 / 2 ^ 46"
  "fl (3135 / 32) = of_int 6893937906155520 / 2 ^ 46"
  "fl (98) = of_int 6896136929411072 / 2 ^ 46"
  "fl (15675 / 64) = of_int 8617422382694400 / 2 ^ 45"
  "fl (245) = of_int 8620171161763840 / 2 ^ 45"
  "fl (324) = of_int 5699868278390784 / 2 ^ 44"
  "fl (522) = of_int 4591560557592576 / 2 ^ 43"
  "fl (570) = of_int 5013773022658560 / 2 ^ 43"
  "fl (600) = of_int 5277655813324800 / 2 ^ 43"
  "fl (1800) = of_int 7916483719987200 / 2 ^ 42"
  "fl (5000) = of_int 5497558138880000 / 2 ^ 40"
  "fl (10500) = of_int 5772436045824000 / 2 ^ 39"
  by (rule fl_cert; simp add: round_even_def)+

section \<open>The tier calculator\<close>

lemma calculateAllTiers_Inr:
  assumes "loadRateCards env = Inr rateCards"
    and "rateCardMap rateCards ''MOWING_BASE'' = Some mowingCard"
    and "rateCardMap rateCards ''LEAF_CLEANUP'' = Some leafCard"
    and "rateCardMap rateCards ''SEASONAL_PACKAGE'' = Some seasonalCard"
    and "rateCardMap rateCards ''LIGHTS_INSTALL'' = Some lightsCard"
  shows "calculateAllTiers env property =
    Inr (tierQuotes
      (calculateMowingCost (or_default (lawnSqft property) 0) mowingCard (totalMultiplier env property))
      (calculateLeafCleanupCost (or_default (lawnSqft property) 0) leafCard (totalMultiplier env property) True)
      (calculateSeasonalPackageCost seasonalCard (totalMultiplier env property))
      (calculateLightsCost (or_default (rooflineFt property) 0) lightsCard (totalMultiplier env property)))"
  using assms by (simp add: calculateAllTiers_def Let_def)

lemma calculateAllTiers_InrD:
  assumes "calculateAllTiers env property = Inr tiers"
  shows "\<exists>m f s l. tiers = tierQuotes m f s l"
  using assms
  by (auto simp: calculateAllTiers_def Let_def split: sum.splits option.splits)

lemma calculateAllTiers_cents:
  assumes "calculateAllTiers env property = Inr tiers"
  shows "\<exists>cm cf cs cl. tiers = tierQuotes (round_cents cm) (round_cents cf)
                                         (round_cents cs) (round_cents cl)"
  using assms
  by (auto simp: calculateAllTiers_def Let_def calculateMowingCost_def
      calculateLeafCleanupCost_def calculateSeasonalPackageCost_def calculateLightsCost_def
      split: sum.splits option.splits)

lemma rateCardMap_None:
  "rateCardMap rateCards code = None \<longleftrightarrow> (\<forall>rc \<in> set rateCards. service_code rc \<noteq> code)"
  unfolding rateCardMap_def by (auto simp: map_of_eq_None_iff image_iff)

lemma rateCardMap_Some:
  "rateCardMap rateCards code = Some rc \<Longrightarrow> rc \<in> set rateCards \<and> service_code rc = code"
  unfolding rateCardMap_def by (auto dest!: map_of_SomeD)

lemma seed_loaded: "loadRateCards seedEnv = Inr seedRateCards"
  by (simp add: loadRateCards_def seedEnv_def seedRateCards_def)

lemma seed_cards:
  "rateCardMap seedRateCards ''MOWING_BASE'' = Some \<lparr>service_code = ''MOWING_BASE'', base_rate = 4.50, factor = 30, active = True\<rparr>"
  "rateCardMap seedRateCards ''LEAF_CLEANUP'' = Some \<lparr>service_code = ''LEAF_CLEANUP'', base_rate = 6.00, factor = 2, active = True\<rparr>"
  "rateCardMap seedRateCards ''SEASONAL_PACKAGE'' = Some \<lparr>service_code = ''SEASONAL_PACKAGE'', base_rate = 650.00, factor = 1, active = True\<rparr>"
  "rateCardMap seedRateCards ''LIGHTS_INSTALL'' = Some \<lparr>service_code = ''LIGHTS_INSTALL'', base_rate = 3.00, factor = 1, active = True\<rparr>"
  by (simp_all add: rateCardMap_def seedRateCards_def)

lemma tierQuotes_list:
  "\<exists>t1 t2 t3. tierQuotes m f s l = [t1, t2, t3]
     \<and> t1 = tierQuotes m f s l ! 0 \<and> t2 = tierQuotes m f s l ! 1 \<and> t3 = tierQuotes m f s l ! 2"
  by (simp add: tierQuotes_def Let_def)

subsection \<open>The quotes of the examples\<close>

lemma scenario_eval:
  "calculateAllTiers seedEnv scenarioProperty =
     Inr [\<lparr>tier = Grass_roots, tierName = ''Grass Roots'', annualPrice = 1811, monthlyPrice = 151,
           breakdown = [(''mowing'', 1772), (''leafCleanup'', 39)]\<rparr>,
          \<lparr>tier = Premier, tierName = ''Premier Lawn'', annualPrice = 2783, monthlyPrice = 232,
           breakdown = [(''mowing'', 1772), (''leafCleanup'', 158), (''seasonal'', 853)]\<rparr>,
          \<lparr>tier = Total_landscape, tierName = ''Total Landscape'', annualPrice = 3879,
           monthlyPrice = 323,
           breakdown = [(''mowing'', 1772), (''leafCleanup'', 158), (''seasonal'', 853),
                        (''lights'', 591), (''premiumMarkup'', 506)]\<rparr>]"
  apply (simp add: calculateAllTiers_def loadRateCards_def seedEnv_def seedRateCards_def
      rateCardMap_def  scenarioProperty_def or_default_def Let_def)
  apply (simp add: totalMultiplier_def getRegionalMultiplier_def seedRegionalAdjustments_def
      complexityMultiplierOf_def or_default_def conditionScoreToMultiplier_def
      distanceMultiplierOf_def calculateDistanceMultiplier_def defaultRegionalMultiplier_def
      maxDistance_def)
  apply (simp add: calculateMowingCost_def calculateLeafCleanupCost_def
      calculateSeasonalPackageCost_def calculateLightsCost_def round_cents_def tierQuotes_def
      Let_def Math_round_def fmul_def fadd_def fdiv_def fl_0 fl_minus tier_roundings tier_roundings_more)
  done

lemma small_eval:
  "calculateAllTiers seedEnv smallProperty =
     Inr [\<lparr>tier = Grass_roots, tierName = ''Grass Roots'', annualPrice = 522, monthlyPrice = 43,
           breakdown = [(''mowing'', 510), (''leafCleanup'', 11)]\<rparr>,
          \<lparr>tier = Premier, tierName = ''Premier Lawn'', annualPrice = 1170, monthlyPrice = 97,
           breakdown = [(''mowing'', 510), (''leafCleanup'', 45), (''seasonal'', 614)]\<rparr>,
          \<lparr>tier = Total_landscape, tierName = ''Total Landscape'', annualPrice = 1574,
           monthlyPrice = 131,
           breakdown = [(''mowing'', 510), (''leafCleanup'', 45), (''seasonal'', 614),
                        (''lights'', 198), (''premiumMarkup'', 205)]\<rparr>]"
  apply (simp add: calculateAllTiers_def loadRateCards_def seedEnv_def seedRateCards_def
      rateCardMap_def  smallProperty_def or_default_def Let_def)
  apply (simp add: totalMultiplier_def getRegionalMultiplier_def seedRegionalAdjustments_def
      complexityMultiplierOf_def or_default_def conditionScoreToMultiplier_def
      distanceMultiplierOf_def calculateDistanceMultiplier_def defaultRegionalMultiplier_def
      maxDistance_def)
  apply (simp add: calculateMowingCost_def calculateLeafCleanupCost_def
      calculateSeasonalPackageCost_def calculateLightsCost_def round_cents_def tierQuotes_def
      Let_def Math_round_def fmul_def fadd_def fdiv_def fl_0 fl_minus tier_roundings tier_roundings_more)
  done

lemma plain_eval:
  "calculateAllTiers seedEnv plainProperty =
     Inr [\<lparr>tier = Grass_roots, tierName = ''Grass Roots'', annualPrice = 991, monthlyPrice = 83,
           breakdown = [(''mowing'', 970), (''leafCleanup'', 22)]\<rparr>,
          \<lparr>tier = Premier, tierName = ''Premier Lawn'', annualPrice = 1670, monthlyPrice = 139,
           breakdown = [(''mowing'', 970), (''leafCleanup'', 86), (''seasonal'', 614)]\<rparr>,
          \<lparr>tier = Total_landscape, tierName = ''Total Landscape'', annualPrice = 1920,
           monthlyPrice = 160,
           breakdown = [(''mowing'', 970), (''leafCleanup'', 86), (''seasonal'', 614),
                        (''lights'', 0), (''premiumMarkup'', 251)]\<rparr>]"
  apply (simp add: calculateAllTiers_def loadRateCards_def seedEnv_def seedRateCards_def rateCardMap_def
      plainProperty_def or_default_def Let_def)
  apply (simp add: totalMultiplier_def getRegionalMultiplier_def seedRegionalAdjustments_def
      complexityMultiplierOf_def or_default_def conditionScoreToMultiplier_def distanceMultiplierOf_def
      calculateDistanceMultiplier_def defaultRegionalMultiplier_def)
  apply (simp add: calculateMowingCost_def calculateLeafCleanupCost_def calculateSeasonalPackageCost_def
      calculateLightsCost_def round_cents_def tierQuotes_def Let_def Math_round_def
      fmul_def fadd_def fdiv_def fl_0 fl_minus tier_roundings)
  done

lemma halves_eval:
  "calculateAllTiers halvesEnv halvesProperty =
     Inr [\<lparr>tier = Grass_roots, tierName = ''Grass Roots'', annualPrice = 1, monthlyPrice = 0,
           breakdown = [(''mowing'', 1), (''leafCleanup'', 0)]\<rparr>,
          \<lparr>tier = Premier, tierName = ''Premier Lawn'', annualPrice = 1670, monthlyPrice = 139,
           breakdown = [(''mowing'', 1), (''leafCleanup'', 1), (''seasonal'', 1669)]\<rparr>,
          \<lparr>tier = Total_landscape, tierName = ''Total Landscape'', annualPrice = 1920,
           monthlyPrice = 160,
           breakdown = [(''mowing'', 1), (''leafCleanup'', 1), (''seasonal'', 1669),
                        (''lights'', 1), (''premiumMarkup'', 251)]\<rparr>]"
  apply (simp add: calculateAllTiers_def loadRateCards_def seedEnv_def seedRateCards_def
      rateCardMap_def halvesEnv_def halvesProperty_def or_default_def Let_def)
  apply (simp add: totalMultiplier_def getRegionalMultiplier_def seedRegionalAdjustments_def
      complexityMultiplierOf_def or_default_def conditionScoreToMultiplier_def
      distanceMultiplierOf_def calculateDistanceMultiplier_def defaultRegionalMultiplier_def
      maxDistance_def)
  apply (simp add: calculateMowingCost_def calculateLeafCleanupCost_def
      calculateSeasonalPackageCost_def calculateLightsCost_def round_cents_def tierQuotes_def
      Let_def Math_round_def fmul_def fadd_def fdiv_def fl_0 fl_minus tier_roundings tier_roundings_more)
  done

lemma negative_eval:
  "calculateAllTiers negativeRegionEnv scenarioProperty =
     Inr [\<lparr>tier = Grass_roots, tierName = ''Grass Roots'', annualPrice = - 1725, monthlyPrice = - 144,
           breakdown = [(''mowing'', - 1687), (''leafCleanup'', - 37)]\<rparr>,
          \<lparr>tier = Premier, tierName = ''Premier Lawn'', annualPrice = - 2650, monthlyPrice = - 221,
           breakdown = [(''mowing'', - 1687), (''leafCleanup'', - 150), (''seasonal'', - 812)]\<rparr>,
          \<lparr>tier = Total_landscape, tierName = ''Total Landscape'', annualPrice = - 3694,
           monthlyPrice = - 308,
           breakdown = [(''mowing'', - 1687), (''leafCleanup'', - 150), (''seasonal'', - 812),
                        (''lights'', - 562), (''premiumMarkup'', - 482)]\<rparr>]"
  apply (simp add: calculateAllTiers_def loadRateCards_def seedEnv_def seedRateCards_def
      rateCardMap_def negativeRegionEnv_def scenarioProperty_def or_default_def Let_def)
  apply (simp add: totalMultiplier_def getRegionalMultiplier_def seedRegionalAdjustments_def
      complexityMultiplierOf_def or_default_def conditionScoreToMultiplier_def
      distanceMultiplierOf_def calculateDistanceMultiplier_def defaultRegionalMultiplier_def
      maxDistance_def)
  apply (simp add: calculateMowingCost_def calculateLeafCleanupCost_def
      calculateSeasonalPackageCost_def calculateLightsCost_def round_cents_def tierQuotes_def
      Let_def Math_round_def fmul_def fadd_def fdiv_def fl_0 fl_minus tier_roundings tier_roundings_more)
  done

lemma unscored_eval:
  "calculateAllTiers seedEnv unscoredProperty =
     Inr [\<lparr>tier = Grass_roots, tierName = ''Grass Roots'', annualPrice = 1594, monthlyPrice = 133,
           breakdown = [(''mowing'', 1559), (''leafCleanup'', 35)]\<rparr>,
          \<lparr>tier = Premier, tierName = ''Premier Lawn'', annualPrice = 2449, monthlyPrice = 204,
           breakdown = [(''mowing'', 1559), (''leafCleanup'', 139), (''seasonal'', 751)]\<rparr>,
          \<lparr>tier = Total_landscape, tierName = ''Total Landscape'', annualPrice = 3414,
           monthlyPrice = 284,
           breakdown = [(''mowing'', 1559), (''leafCleanup'', 139), (''seasonal'', 751),
                        (''lights'', 520), (''premiumMarkup'', 445)]\<rparr>]"
  apply (simp add: calculateAllTiers_def loadRateCards_def seedEnv_def seedRateCards_def
      rateCardMap_def  unscoredProperty_def scenarioProperty_def or_default_def Let_def)
  apply (simp add: totalMultiplier_def getRegionalMultiplier_def seedRegionalAdjustments_def
      complexityMultiplierOf_def or_default_def conditionScoreToMultiplier_def
      distanceMultiplierOf_def calculateDistanceMultiplier_def defaultRegionalMultiplier_def
      maxDistance_def)
  apply (simp add: calculateMowingCost_def calculateLeafCleanupCost_def
      calculateSeasonalPackageCost_def calculateLightsCost_def round_cents_def tierQuotes_def
      Let_def Math_round_def fmul_def fadd_def fdiv_def fl_0 fl_minus tier_roundings tier_roundings_more)
  done

section \<open>The total-landscape tier\<close>

text \<open>
  Claim C1, amended. When the loaded catalog has the four tier-pricing cards, the third
  quote is the total-landscape tier; its annual price is the rounded product of 1.15 and
  the sum of the mowing, full leaf cleanup, seasonal and lights costs, the sum taken from
  left to right and every addition and the multiplication rounded to the nearest double;
  its breakdown lists these four costs, each rounded, and a premium markup of the rounded
  product of that sum and 0.15, computed in the same way.
\<close>

theorem total_landscape_price_and_breakdown:
  fixes env :: Env and property :: Property
  assumes "loadRateCards env = Inr rateCards"
    and "rateCardMap rateCards ''MOWING_BASE'' = Some mowingCard"
    and "rateCardMap rateCards ''LEAF_CLEANUP'' = Some leafCard"
    and "rateCardMap rateCards ''SEASONAL_PACKAGE'' = Some seasonalCard"
    and "rateCardMap rateCards ''LIGHTS_INSTALL'' = Some lightsCard"
  defines "multiplier \<equiv> totalMultiplier env property"
  defines "mowingCost \<equiv> calculateMowingCost (or_default (lawnSqft property) 0) mowingCard multiplier"
    and "fullLeafCleanupCost \<equiv>
           calculateLeafCleanupCost (or_default (lawnSqft property) 0) leafCard multiplier True"
    and "seasonalCost \<equiv> calculateSeasonalPackageCost seasonalCard multiplier"
    and "lightsCost \<equiv> calculateLightsCost (or_default (rooflineFt property) 0) lightsCard multiplier"
  defines "subtotal \<equiv> fadd (fadd (fadd mowingCost fullLeafCleanupCost) seasonalCost) lightsCost"
  shows "\<exists>t1 t2 t3. calculateAllTiers env property = Inr [t1, t2, t3]
           \<and> tier t1 = Grass_roots \<and> tier t2 = Premier \<and> tier t3 = Total_landscape
           \<and> annualPrice t3 = Math_round (fmul subtotal 1.15)
           \<and> breakdown t3 =
               [(''mowing'', Math_round mowingCost),
                (''leafCleanup'', Math_round fullLeafCleanupCost),
                (''seasonal'', Math_round seasonalCost),
                (''lights'', Math_round lightsCost),
                (''premiumMarkup'', Math_round (fmul subtotal 0.15))]"
  unfolding calculateAllTiers_Inr[OF assms(1-5)] multiplier_def mowingCost_def
    fullLeafCleanupCost_def seasonalCost_def lightsCost_def subtotal_def
  by (simp add: tierQuotes_def Let_def)

theorem total_landscape_price_and_breakdown_witness:
  "\<exists>t1 t2 t3. calculateAllTiers seedEnv scenarioProperty = Inr [t1, t2, t3]
      \<and> tier t1 = Grass_roots \<and> tier t2 = Premier \<and> tier t3 = Total_landscape
      \<and> annualPrice t3 = 3879
      \<and> breakdown t3 = [(''mowing'', 1772), (''leafCleanup'', 158), (''seasonal'', 853),
                        (''lights'', 591), (''premiumMarkup'', 506)]"
  using total_landscape_price_and_breakdown[OF seed_loaded seed_cards, of scenarioProperty]
  by (simp add: scenario_eval)

lemma plain_multiplier:
  "totalMultiplier seedEnv plainProperty = 4255901647865119 / 4503599627370496"
  by (simp add: totalMultiplier_def getRegionalMultiplier_def seedRegionalAdjustments_def
      complexityMultiplierOf_def or_default_def conditionScoreToMultiplier_def
      distanceMultiplierOf_def calculateDistanceMultiplier_def defaultRegionalMultiplier_def
      maxDistance_def seedEnv_def plainProperty_def fmul_def tier_roundings)

lemma plain_costs:
  "calculateMowingCost 7600 (seedRateCards ! 0) (totalMultiplier seedEnv plainProperty)
     = 8528427911542211 / 8796093022208"
  "calculateLeafCleanupCost 7600 (seedRateCards ! 1) (totalMultiplier seedEnv plainProperty) True
     = 1516094593307771 / 17592186044416"
  "calculateSeasonalPackageCost (seedRateCards ! 3) (totalMultiplier seedEnv plainProperty)
     = 2457 / 4"
  "calculateLightsCost 0 (seedRateCards ! 2) (totalMultiplier seedEnv plainProperty) = 0"
  unfolding plain_multiplier
  by (simp_all add: seedRateCards_def calculateMowingCost_def calculateLeafCleanupCost_def
      calculateSeasonalPackageCost_def calculateLightsCost_def round_cents_def Let_def
      Math_round_def fmul_def fdiv_def fl_0 tier_roundings)

theorem total_landscape_price_counterexample:
  "calculateAllTiers seedEnv plainProperty = Inr plainTiers
   \<and> tier (plainTiers ! 2) = Total_landscape
   \<and> map service_code (take 4 seedRateCards)
        = [''MOWING_BASE'', ''LEAF_CLEANUP'', ''LIGHTS_INSTALL'', ''SEASONAL_PACKAGE'']
   \<and> annualPrice (plainTiers ! 2) = 1920
   \<and> Math_round (1.15 *
        (calculateMowingCost 7600 (seedRateCards ! 0) (totalMultiplier seedEnv plainProperty)
         + calculateLeafCleanupCost 7600 (seedRateCards ! 1)
             (totalMultiplier seedEnv plainProperty) True
         + calculateSeasonalPackageCost (seedRateCards ! 3)
             (totalMultiplier seedEnv plainProperty)
         + calculateLightsCost 0 (seedRateCards ! 2) (totalMultiplier seedEnv plainProperty)))
       = 1921
   \<and> Math_round (1.15 * (969.57 + 86.18 + 614.25 + 0)) = 1921"
proof -
  have a: "calculateAllTiers seedEnv plainProperty = Inr plainTiers"
    by (simp add: plainTiers_def plain_eval)
  have b: "tier (plainTiers ! 2) = Total_landscape" "annualPrice (plainTiers ! 2) = 1920"
    by (simp_all add: plainTiers_def plain_eval)
  have c: "map service_code (take 4 seedRateCards)
        = [''MOWING_BASE'', ''LEAF_CLEANUP'', ''LIGHTS_INSTALL'', ''SEASONAL_PACKAGE'']"
    by (simp add: seedRateCards_def)
  have d: "Math_round (1.15 * (969.57 + 86.18 + 614.25 + 0)) = 1921"
    by (simp add: Math_round_def)
  have e: "Math_round (1.15 * (8528427911542211 / 8796093022208
             + 1516094593307771 / 17592186044416 + 2457 / 4 + 0)) = 1921"
    by (simp add: Math_round_def)
  show ?thesis unfolding plain_costs using a b c d e by simp
qed

section \<open>Ordering of the tiers\<close>

lemma conditionScoreToMultiplier_pos: "0 < conditionScoreToMultiplier score"
  by (simp add: conditionScoreToMultiplier_def)

lemma distanceMultiplierOf_pos: "0 < distanceMultiplierOf env property"
  by (simp add: distanceMultiplierOf_def calculateDistanceMultiplier_def split: option.splits)

lemma totalMultiplier_nonneg:
  "0 \<le> getRegionalMultiplier env (zipCode property) \<Longrightarrow> 0 \<le> totalMultiplier env property"
  unfolding totalMultiplier_def complexityMultiplierOf_def
  using conditionScoreToMultiplier_pos[of "or_default (conditionScore property) 3"]
    distanceMultiplierOf_pos[of env property]
  by (intro fmul_nonneg) simp_all

lemma tierQuotes_ordered:
  assumes "0 \<le> m" "0 \<le> f" "0 \<le> s" "0 \<le> l"
  shows "annualPrice (tierQuotes m f s l ! 0) \<le> annualPrice (tierQuotes m f s l ! 1)"
    and "annualPrice (tierQuotes m f s l ! 1) \<le> annualPrice (tierQuotes m f s l ! 2)"
proof -
  have m': "0 \<le> fl m" and f': "0 \<le> fl f" and s': "0 \<le> fl s" and l': "0 \<le> fl l"
    using assms by (simp_all add: fl_nonneg)
  have q: "fl (1 / 4) \<le> 1" using fl_mono[of "1 / 4" 1] by (simp add: fl_1)
  have "fl f * fl (1 / 4) \<le> fl f" using f' q by (simp add: mult_left_le)
  then have "fl (fl f * fl (1 / 4)) \<le> fl (fl f)" by (rule fl_mono)
  then have b: "fmul f (1 / 4) \<le> fl f" by (simp add: fmul_def fl_fl)
  have "fl m + fl (fmul f (1 / 4)) \<le> fl m + fl f" using b by (simp add: fl_fmul)
  then have t1: "fadd m (fmul f (1 / 4)) \<le> fadd m f" unfolding fadd_def by (rule fl_mono)
  have mf: "0 \<le> fadd m f" using assms by (intro fadd_nonneg)
  have "fl (fadd m f) + 0 \<le> fl (fadd m f) + fl s" using s' by simp
  then have "fl (fl (fadd m f)) \<le> fl (fl (fadd m f) + fl s)" by (intro fl_mono) simp
  then have t2: "fadd m f \<le> fadd (fadd m f) s" by (simp add: fadd_def fl_fl)
  from t1 t2 have "fadd m (fmul f (1 / 4)) \<le> fadd (fadd m f) s" by linarith
  then show "annualPrice (tierQuotes m f s l ! 0) \<le> annualPrice (tierQuotes m f s l ! 1)"
    by (simp add: tierQuotes_def Let_def Math_round_mono)
  let ?t2 = "fadd (fadd m f) s"
  let ?B = "fadd ?t2 l"
  have t2n: "0 \<le> ?t2" using mf assms by (intro fadd_nonneg)
  have "fl ?t2 + 0 \<le> fl ?t2 + fl l" using l' by simp
  then have "fl (fl ?t2) \<le> fl (fl ?t2 + fl l)" by (intro fl_mono) simp
  then have B: "?t2 \<le> ?B" by (simp add: fadd_def fl_fl)
  have Bn: "0 \<le> ?B" using t2n B by linarith
  have c: "1 \<le> fl (23 / 20)" using fl_mono[of 1 "23 / 20"] by (simp add: fl_1)
  have "?B * 1 \<le> fl ?B * fl (23 / 20)"
    unfolding fl_fadd using Bn c by (intro mult_left_mono) simp_all
  then have "fl ?B \<le> fl (fl ?B * fl (23 / 20))" by (intro fl_mono) (simp add: fl_fadd)
  then have "?B \<le> fmul ?B (23 / 20)" by (simp add: fmul_def fl_fadd)
  with B have "?t2 \<le> fmul ?B (23 / 20)" by linarith
  then show "annualPrice (tierQuotes m f s l ! 1) \<le> annualPrice (tierQuotes m f s l ! 2)"
    by (simp add: tierQuotes_def Let_def Math_round_mono)
qed

text \<open>
  Claim C2, amended. With the four cards loaded, every rate non-negative, every factor at
  least 1, a non-negative regional multiplier and non-negative lawn and roofline
  measurements, the annual prices of the three tiers are in ascending order.
\<close>

theorem tier_prices_ordered:
  assumes "loadRateCards env = Inr rateCards"
    and "rateCardMap rateCards ''MOWING_BASE'' = Some mowingCard"
    and "rateCardMap rateCards ''LEAF_CLEANUP'' = Some leafCard"
    and "rateCardMap rateCards ''SEASONAL_PACKAGE'' = Some seasonalCard"
    and "rateCardMap rateCards ''LIGHTS_INSTALL'' = Some lightsCard"
    and rates: "\<forall>rc \<in> set rateCards. 0 \<le> base_rate rc \<and> 1 \<le> factor rc"
    and region: "0 \<le> getRegionalMultiplier env (zipCode property)"
    and lawn: "0 \<le> or_default (lawnSqft property) 0"
    and roof: "0 \<le> or_default (rooflineFt property) 0"
  shows "\<exists>t1 t2 t3. calculateAllTiers env property = Inr [t1, t2, t3]
           \<and> tier t1 = Grass_roots \<and> tier t2 = Premier \<and> tier t3 = Total_landscape
           \<and> annualPrice t1 \<le> annualPrice t2 \<and> annualPrice t2 \<le> annualPrice t3"
proof -
  let ?M = "totalMultiplier env property"
  let ?m = "calculateMowingCost (or_default (lawnSqft property) 0) mowingCard ?M"
  let ?f = "calculateLeafCleanupCost (or_default (lawnSqft property) 0) leafCard ?M True"
  let ?s = "calculateSeasonalPackageCost seasonalCard ?M"
  let ?l = "calculateLightsCost (or_default (rooflineFt property) 0) lightsCard ?M"
  have M: "0 \<le> ?M" using region by (rule totalMultiplier_nonneg)
  have mc: "0 \<le> base_rate mowingCard \<and> 0 \<le> factor mowingCard"
    using rates rateCardMap_Some[OF assms(2)] by force
  have lc: "0 \<le> base_rate leafCard \<and> 0 \<le> factor leafCard"
    using rates rateCardMap_Some[OF assms(3)] by force
  have sc: "0 \<le> base_rate seasonalCard"
    using rates rateCardMap_Some[OF assms(4)] by force
  have lic: "0 \<le> base_rate lightsCard"
    using rates rateCardMap_Some[OF assms(5)] by force
  have m: "0 \<le> ?m" using M mc lawn
    by (auto simp add: calculateMowingCost_def Let_def intro!: round_cents_nonneg fmul_nonneg fdiv_nonneg)
  have f: "0 \<le> ?f" using M lc lawn
    by (auto simp add: calculateLeafCleanupCost_def Let_def intro!: round_cents_nonneg fmul_nonneg fdiv_nonneg)
  have s: "0 \<le> ?s" using M sc
    by (auto simp add: calculateSeasonalPackageCost_def Let_def intro!: round_cents_nonneg fmul_nonneg)
  have l: "0 \<le> ?l" using M lic roof
    by (auto simp add: calculateLightsCost_def Let_def intro!: round_cents_nonneg fmul_nonneg)
  have res: "calculateAllTiers env property = Inr (tierQuotes ?m ?f ?s ?l)"
    by (rule calculateAllTiers_Inr[OF assms(1-5)])
  have tiers: "map tier (tierQuotes ?m ?f ?s ?l) = [Grass_roots, Premier, Total_landscape]"
    by (simp add: tierQuotes_def Let_def)
  from tierQuotes_list[of ?m ?f ?s ?l] obtain t1 t2 t3 where
    ts: "tierQuotes ?m ?f ?s ?l = [t1, t2, t3]" "t1 = tierQuotes ?m ?f ?s ?l ! 0"
      "t2 = tierQuotes ?m ?f ?s ?l ! 1" "t3 = tierQuotes ?m ?f ?s ?l ! 2" by blast
  have "annualPrice t1 \<le> annualPrice t2" "annualPrice t2 \<le> annualPrice t3"
    using tierQuotes_ordered[OF m f s l] ts(2-4) by simp_all
  moreover have "tier t1 = Grass_roots \<and> tier t2 = Premier \<and> tier t3 = Total_landscape"
    using tiers ts(1) by simp
  ultimately show ?thesis using res ts(1) by simp
qed

theorem tier_prices_ordered_witness:
  "list_all (\<lambda>rc. 0 \<le> base_rate rc \<and> 1 \<le> factor rc) seedRateCards
   \<and> 0 \<le> getRegionalMultiplier seedEnv (zipCode scenarioProperty)
   \<and> 0 \<le> or_default (lawnSqft scenarioProperty) 0
   \<and> 0 \<le> or_default (rooflineFt scenarioProperty) 0
   \<and> (\<exists>t1 t2 t3. calculateAllTiers seedEnv scenarioProperty = Inr [t1, t2, t3]
           \<and> tier t1 = Grass_roots \<and> tier t2 = Premier \<and> tier t3 = Total_landscape
           \<and> annualPrice t1 \<le> annualPrice t2 \<and> annualPrice t2 \<le> annualPrice t3)"
proof -
  have rates: "\<forall>rc \<in> set seedRateCards. 0 \<le> base_rate rc \<and> 1 \<le> factor rc"
    by (simp add: seedRateCards_def)
  have region: "0 \<le> getRegionalMultiplier seedEnv (zipCode scenarioProperty)"
    by (simp add: getRegionalMultiplier_def seedEnv_def scenarioProperty_def
        seedRegionalAdjustments_def)
  have lawn: "0 \<le> or_default (lawnSqft scenarioProperty) 0"
    by (simp add: or_default_def scenarioProperty_def)
  have roof: "0 \<le> or_default (rooflineFt scenarioProperty) 0"
    by (simp add: or_default_def scenarioProperty_def)
  show ?thesis
    using tier_prices_ordered[OF seed_loaded seed_cards rates region lawn roof] rates region lawn roof
    by (simp add: list_all_iff)
qed

theorem tier_prices_ordered_counterexample:
  "calculateAllTiers negativeRegionEnv scenarioProperty = Inr negativeTiers
   \<and> list_all (\<lambda>rc. 0 \<le> base_rate rc \<and> 1 \<le> factor rc) seedRateCards
   \<and> map tier negativeTiers = [Grass_roots, Premier, Total_landscape]
   \<and> map annualPrice negativeTiers = [- 1725, - 2650, - 3694]
   \<and> \<not> annualPrice (negativeTiers ! 0) \<le> annualPrice (negativeTiers ! 1)
   \<and> \<not> annualPrice (negativeTiers ! 1) \<le> annualPrice (negativeTiers ! 2)"
  by (simp add: negativeTiers_def negative_eval seedRateCards_def)

section \<open>The multipliers\<close>

text \<open>
  Claim C4. The condition scores 1 to 5 give the multipliers 0.90, 1.00, 1.10, 1.25 and
  1.50; every other score gives the fallback 1.0; and a property without a condition
  score is priced as the same property with score 3: its complexity multiplier is 1.10,
  its total multiplier is the product of the regional multiplier, 1.10 and the distance
  multiplier, and with the four cards loaded the tier calculator returns the quotes made
  of the four sub-costs computed with that product.
\<close>

theorem complexity_multiplier_table:
  "map conditionScoreToMultiplier [1, 2, 3, 4, 5] = [0.90, 1.00, 1.10, 1.25, 1.50]
   \<and> (score \<notin> {1, 2, 3, 4, 5} \<longrightarrow> conditionScoreToMultiplier score = 1.0)
   \<and> (conditionScore property = None \<longrightarrow>
        or_default (conditionScore property) 3 = 3
        \<and> complexityMultiplierOf property = 1.10
        \<and> totalMultiplier env property =
            fmul (fmul (getRegionalMultiplier env (zipCode property)) 1.10)
                 (distanceMultiplierOf env property)
        \<and> calculateAllTiers env property
            = calculateAllTiers env (property\<lparr>conditionScore := Some 3\<rparr>)
        \<and> (loadRateCards env = Inr rateCards
            \<and> rateCardMap rateCards ''MOWING_BASE'' = Some mowingCard
            \<and> rateCardMap rateCards ''LEAF_CLEANUP'' = Some leafCard
            \<and> rateCardMap rateCards ''SEASONAL_PACKAGE'' = Some seasonalCard
            \<and> rateCardMap rateCards ''LIGHTS_INSTALL'' = Some lightsCard \<longrightarrow>
            calculateAllTiers env property =
              (let multiplier = fmul (fmul (getRegionalMultiplier env (zipCode property)) 1.10)
                                     (distanceMultiplierOf env property);
                   lawn = or_default (lawnSqft property) 0;
                   roofline = or_default (rooflineFt property) 0
               in Inr (tierQuotes
                    (round_cents (fmul (fmul (fmul (fdiv lawn 1000) (base_rate mowingCard))
                                             (factor mowingCard)) multiplier))
                    (round_cents (fmul (fmul (fmul (fdiv lawn 1000) (base_rate leafCard))
                                             (factor leafCard)) multiplier))
                    (round_cents (fmul (base_rate seasonalCard) multiplier))
                    (round_cents (fmul (fmul roofline (base_rate lightsCard)) multiplier))))))"
proof -
  have table: "map conditionScoreToMultiplier [1, 2, 3, 4, 5] = [0.90, 1.00, 1.10, 1.25, 1.50]"
    by (simp add: conditionScoreToMultiplier_def)
  have fallback: "score \<notin> {1, 2, 3, 4, 5} \<longrightarrow> conditionScoreToMultiplier score = 1.0"
    by (simp add: conditionScoreToMultiplier_def)
  have absent: "or_default (conditionScore property) 3 = 3
        \<and> complexityMultiplierOf property = 1.10
        \<and> totalMultiplier env property =
            fmul (fmul (getRegionalMultiplier env (zipCode property)) 1.10)
                 (distanceMultiplierOf env property)"
    if "conditionScore property = None"
    using that
    by (simp add: conditionScoreToMultiplier_def complexityMultiplierOf_def or_default_def
        totalMultiplier_def)
  have same: "calculateAllTiers env property
            = calculateAllTiers env (property\<lparr>conditionScore := Some 3\<rparr>)"
    if "conditionScore property = None"
  proof -
    have "totalMultiplier env (property\<lparr>conditionScore := Some 3\<rparr>)
            = totalMultiplier env property"
      using that
      by (simp add: totalMultiplier_def complexityMultiplierOf_def or_default_def
          distanceMultiplierOf_def)
    then show ?thesis by (simp add: calculateAllTiers_def Let_def split: sum.splits)
  qed
  have quotes: "calculateAllTiers env property =
              (let multiplier = fmul (fmul (getRegionalMultiplier env (zipCode property)) 1.10)
                                     (distanceMultiplierOf env property);
                   lawn = or_default (lawnSqft property) 0;
                   roofline = or_default (rooflineFt property) 0
               in Inr (tierQuotes
                    (round_cents (fmul (fmul (fmul (fdiv lawn 1000) (base_rate mowingCard))
                                             (factor mowingCard)) multiplier))
                    (round_cents (fmul (fmul (fmul (fdiv lawn 1000) (base_rate leafCard))
                                             (factor leafCard)) multiplier))
                    (round_cents (fmul (base_rate seasonalCard) multiplier))
                    (round_cents (fmul (fmul roofline (base_rate lightsCard)) multiplier))))"
    if n: "conditionScore property = None" and l: "loadRateCards env = Inr rateCards"
      and c: "rateCardMap rateCards ''MOWING_BASE'' = Some mowingCard"
        "rateCardMap rateCards ''LEAF_CLEANUP'' = Some leafCard"
        "rateCardMap rateCards ''SEASONAL_PACKAGE'' = Some seasonalCard"
        "rateCardMap rateCards ''LIGHTS_INSTALL'' = Some lightsCard"
    unfolding calculateAllTiers_Inr[OF l c]
    using absent[OF n]
    by (simp add: Let_def calculateMowingCost_def calculateLeafCleanupCost_def
        calculateSeasonalPackageCost_def calculateLightsCost_def)
  show ?thesis using table fallback absent same quotes by blast
qed

theorem complexity_multiplier_table_witness:
  "(7 :: real) \<notin> {1, 2, 3, 4, 5} \<and> conditionScoreToMultiplier 7 = 1.0
   \<and> conditionScore unscoredProperty = None
   \<and> or_default (conditionScore unscoredProperty) 3 = 3
   \<and> complexityMultiplierOf unscoredProperty = 1.10
   \<and> totalMultiplier seedEnv unscoredProperty = fmul (fmul 1.05 1.10) 1.0
   \<and> calculateAllTiers seedEnv unscoredProperty
       = calculateAllTiers seedEnv (unscoredProperty\<lparr>conditionScore := Some 3\<rparr>)
   \<and> loadRateCards seedEnv = Inr seedRateCards
   \<and> map (\<lambda>q. (tier q, annualPrice q, monthlyPrice q))
          (projr (calculateAllTiers seedEnv unscoredProperty))
       = [(Grass_roots, 1594, 133), (Premier, 2449, 204), (Total_landscape, 3414, 284)]"
proof -
  have a: "(7 :: real) \<notin> {1, 2, 3, 4, 5}" by simp
  have b: "conditionScore unscoredProperty = None"
    by (simp add: unscoredProperty_def)
  have c: "getRegionalMultiplier seedEnv (zipCode unscoredProperty) = 1.05"
    by (simp add: getRegionalMultiplier_def seedEnv_def unscoredProperty_def scenarioProperty_def
        seedRegionalAdjustments_def)
  have d: "distanceMultiplierOf seedEnv unscoredProperty = 1.0"
    by (simp add: distanceMultiplierOf_def seedEnv_def unscoredProperty_def scenarioProperty_def
        calculateDistanceMultiplier_def maxDistance_def)
  have e: "or_default (lawnSqft unscoredProperty) 0 = 10000"
    "or_default (rooflineFt unscoredProperty) 0 = 150"
    by (simp_all add: or_default_def unscoredProperty_def scenarioProperty_def)
  note t = complexity_multiplier_table[of 7 unscoredProperty seedEnv seedRateCards
      "\<lparr>service_code = ''MOWING_BASE'', base_rate = 4.50, factor = 30, active = True\<rparr>"
      "\<lparr>service_code = ''LEAF_CLEANUP'', base_rate = 6.00, factor = 2, active = True\<rparr>"
      "\<lparr>service_code = ''SEASONAL_PACKAGE'', base_rate = 650.00, factor = 1, active = True\<rparr>"
      "\<lparr>service_code = ''LIGHTS_INSTALL'', base_rate = 3.00, factor = 1, active = True\<rparr>"]
  have k1: "conditionScoreToMultiplier 7 = 1.0"
    using t[THEN conjunct2, THEN conjunct1] a by (rule mp)
  note n = t[THEN conjunct2, THEN conjunct2, THEN mp, OF b]
  note k2 = n[THEN conjunct1]
  note k3 = n[THEN conjunct2, THEN conjunct1]
  note k4 = n[THEN conjunct2, THEN conjunct2, THEN conjunct1]
  note k5 = n[THEN conjunct2, THEN conjunct2, THEN conjunct2, THEN conjunct1]
  note q = n[THEN conjunct2, THEN conjunct2, THEN conjunct2, THEN conjunct2, THEN mp,
      OF conjI[OF seed_loaded conjI[OF seed_cards(1) conjI[OF seed_cards(2)
        conjI[OF seed_cards(3) seed_cards(4)]]]]]
  have k4': "totalMultiplier seedEnv unscoredProperty = fmul (fmul 1.05 1.10) 1.0"
    using k4 unfolding c d .
  have v: "map (\<lambda>q. (tier q, annualPrice q, monthlyPrice q))
          (projr (calculateAllTiers seedEnv unscoredProperty))
       = [(Grass_roots, 1594, 133), (Premier, 2449, 204), (Total_landscape, 3414, 284)]"
    unfolding q c d e
    by (simp add: round_cents_def tierQuotes_def Let_def Math_round_def fmul_def fadd_def
        fdiv_def fl_0 fl_minus tier_roundings tier_roundings_more)
  show ?thesis
    by (intro conjI) (rule a k1 b k2 k3 k4' k5 seed_loaded v)+
qed

text \<open>
  Claim C5. With a maximum service radius of 25 miles, the distances 0, 10, 10.01, 20,
  20.01, 25 and 25.01 miles give the multipliers 1.00, 1.00, 1.05, 1.05, 1.10, 1.10 and
  1.20: the boundaries 10, 20 and 25 take the multiplier of the band below them.
\<close>

theorem distance_multiplier_boundaries:
  assumes "maxDistance env = 25"
  shows "map (calculateDistanceMultiplier env) [0, 10, 10.01, 20, 20.01, 25, 25.01]
           = [1.00, 1.00, 1.05, 1.05, 1.10, 1.10, 1.20]
         \<and> calculateDistanceMultiplier env d
             = (if d \<le> 10 then 1.00 else if d \<le> 20 then 1.05 else if d \<le> 25 then 1.10 else 1.20)"
  using assms by (simp add: calculateDistanceMultiplier_def)

theorem distance_multiplier_boundaries_witness:
  "SERVICE_AREA_RADIUS_MILES seedEnv = None \<and> maxDistance seedEnv = 25
   \<and> map (calculateDistanceMultiplier seedEnv) [0, 10, 10.01, 20, 20.01, 25, 25.01]
        = [1.00, 1.00, 1.05, 1.05, 1.10, 1.10, 1.20]
   \<and> calculateDistanceMultiplier seedEnv 8 = 1.00"
proof -
  have r: "SERVICE_AREA_RADIUS_MILES seedEnv = None" by (simp add: seedEnv_def)
  then have m: "maxDistance seedEnv = 25" by (simp add: maxDistance_def)
  show ?thesis using distance_multiplier_boundaries[OF m, of 8] r m by simp
qed

section \<open>Breakdown sums\<close>

lemma line_bound:
  assumes "\<bar>Math_round x\<bar> \<le> 10 ^ 9"
  shows "\<bar>x\<bar> \<le> 2 ^ 31"
proof -
  from assms have "\<bar>Math_round x\<bar> \<le> 1000000000" by simp
  then have "\<bar>x\<bar> \<le> 2147483648"
    using Math_round_upper[of x] Math_round_lower[of x] by linarith
  then show ?thesis by simp
qed

lemma tier1_sum:
  assumes fa: "fl a = a" and fb: "fl b = b" and ba: "\<bar>a\<bar> \<le> 2 ^ 32" and bb: "\<bar>b\<bar> \<le> 2 ^ 32"
  shows "\<bar>Math_round a + Math_round b - Math_round (fadd a b)\<bar> \<le> 1"
proof -
  define i where "i = \<lfloor>a + 1 / 2\<rfloor> + \<lfloor>b + 1 / 2\<rfloor>"
  define y where "y = fadd a b"
  have N: "Math_round a + Math_round b = of_int i" by (simp add: Math_round_def i_def)
  have y: "y = fl (a + b)" by (simp add: y_def fadd_def fa fb)
  have lo: "of_int i - 1 \<le> a + b"
    using Math_round_upper[of a] Math_round_upper[of b] unfolding N[symmetric] by linarith
  have hi: "a + b \<le> of_int i + 1"
    using Math_round_lower[of a] Math_round_lower[of b] unfolding N[symmetric] by linarith
  have ba': "\<bar>a\<bar> \<le> 4294967296" using ba by simp
  have bb': "\<bar>b\<bar> \<le> 4294967296" using bb by simp
  have Nb: "\<bar>of_int i :: real\<bar> \<le> 8589934594" using lo hi ba' bb' by linarith
  have "\<bar>of_int (i - 1) :: real\<bar> \<le> 2 ^ 53" using Nb by (simp; linarith)
  then have r1: "fl (of_int (i - 1)) = of_int (i - 1)" by (rule fl_of_int_real)
  have "\<bar>of_int (i + 1) :: real\<bar> \<le> 2 ^ 53" using Nb by (simp; linarith)
  then have r2: "fl (of_int (i + 1)) = of_int (i + 1)" by (rule fl_of_int_real)
  have "fl (of_int (i - 1)) \<le> fl (a + b)" by (rule fl_mono) (use lo in simp)
  then have y1: "of_int i - 1 \<le> y" unfolding r1 y by simp
  have "fl (a + b) \<le> fl (of_int (i + 1))" by (rule fl_mono) (use hi in simp)
  then have y2: "y \<le> of_int i + 1" unfolding r2 y by simp
  have "\<bar>(Math_round a + Math_round b) - Math_round y\<bar> < of_int 1 + 1"
    using y1 y2 Math_round_upper[of y] Math_round_lower[of y] unfolding N by simp
  with N have "\<bar>(Math_round a + Math_round b) - Math_round y\<bar> \<le> of_int 1" by (rule round_gap)
  then show ?thesis unfolding y_def by simp
qed

lemma tier2_sum:
  assumes m: "m = fl (of_int nm / 100)" and f: "f = fl (of_int nf / 100)"
    and s: "s = fl (of_int ns / 100)"
    and bm: "\<bar>m\<bar> \<le> 2 ^ 31" and bf: "\<bar>f\<bar> \<le> 2 ^ 31" and bs: "\<bar>s\<bar> \<le> 2 ^ 31"
  shows "\<bar>Math_round m + Math_round f + Math_round s - Math_round (fadd (fadd m f) s)\<bar> \<le> 1"
proof -
  have fm: "fl m = m" by (subst (2) m, subst m) (rule fl_fl)
  have ff: "fl f = f" by (subst (2) f, subst f) (rule fl_fl)
  have fs: "fl s = s" by (subst (2) s, subst s) (rule fl_fl)
  define i where "i = \<lfloor>m + 1 / 2\<rfloor> + \<lfloor>f + 1 / 2\<rfloor>"
  define j where "j = i + \<lfloor>s + 1 / 2\<rfloor>"
  define y1 where "y1 = fadd m f"
  define y2 where "y2 = fadd y1 s"
  have A: "Math_round m + Math_round f = of_int i" by (simp add: Math_round_def i_def)
  have N: "Math_round m + Math_round f + Math_round s = of_int j"
    by (simp add: Math_round_def i_def j_def)
  have S: "Math_round s = of_int j - of_int i" by (simp add: Math_round_def j_def)
  have y1e: "y1 = fl (m + f)" by (simp add: y1_def fadd_def fm ff)
  have fy1: "fl y1 = y1" by (simp add: y1_def fl_fadd)
  have y2e: "y2 = fl (y1 + s)" by (simp add: y2_def fadd_def fs fy1)
  have cm: "m - Math_round m \<le> 49 / 100 + 1 / 131072" using cents_frac[OF m bm] by simp
  have cf: "f - Math_round f \<le> 49 / 100 + 1 / 131072" using cents_frac[OF f bf] by simp
  have cs: "s - Math_round s \<le> 49 / 100 + 1 / 131072" using cents_frac[OF s bs] by simp
  have bm': "\<bar>m\<bar> \<le> 2147483648" using bm by simp
  have bf': "\<bar>f\<bar> \<le> 2147483648" using bf by simp
  have bs': "\<bar>s\<bar> \<le> 2147483648" using bs by simp
  have lo1: "of_int i - 1 \<le> m + f"
    using Math_round_upper[of m] Math_round_upper[of f] unfolding A[symmetric] by linarith
  have up1: "m + f \<le> of_int i + 98 / 100 + 2 / 131072"
    using cm cf unfolding A[symmetric] by linarith
  have Ab: "\<bar>of_int i :: real\<bar> \<le> 4294967298" using lo1 up1 bm' bf' by linarith
  have "\<bar>of_int (i - 1) :: real\<bar> \<le> 2 ^ 53" using Ab by (simp; linarith)
  then have r1: "fl (of_int (i - 1)) = of_int (i - 1)" by (rule fl_of_int_real)
  have "fl (of_int (i - 1)) \<le> fl (m + f)" by (rule fl_mono) (use lo1 in simp)
  then have y1lo: "of_int i - 1 \<le> y1" unfolding r1 y1e by simp
  have "\<bar>m + f\<bar> \<le> 2 ^ 35" using bm' bf' by (simp; linarith)
  then have "\<bar>fl (m + f) - (m + f)\<bar> \<le> 1 / 2 ^ 17" by (rule fl_err_small)
  then have e1: "\<bar>y1 - (m + f)\<bar> \<le> 1 / 131072" unfolding y1e by simp
  have y1up: "y1 \<le> of_int i + 98 / 100 + 3 / 131072" using e1 up1 by linarith
  have sl: "Math_round s - 1 / 2 \<le> s" using Math_round_upper[of s] by linarith
  have lo2: "(of_int (2 * j - 3) :: real) / 2 \<le> y1 + s"
    using y1lo sl unfolding S by (simp; linarith)
  have up2: "y1 + s \<le> of_int j + 147 / 100 + 4 / 131072"
    using y1up cs unfolding S by linarith
  have Nb: "\<bar>of_int j :: real\<bar> \<le> 6442450948"
    using lo1 up1 bm' bf' bs' sl cs unfolding S by linarith
  have "\<bar>of_int (2 * j - 3) :: real\<bar> \<le> 2 ^ 53" using Nb by (simp; linarith)
  then have r2: "fl (of_int (2 * j - 3) / 2) = of_int (2 * j - 3) / 2" by (rule fl_half_int)
  have "fl (of_int (2 * j - 3) / 2) \<le> fl (y1 + s)" using lo2 by (rule fl_mono)
  then have y2lo: "of_int j - 3 / 2 \<le> y2" unfolding r2 y2e by simp
  have "\<bar>y1 + s\<bar> \<le> 2 ^ 35" using lo2 up2 Nb by (simp; linarith)
  then have "\<bar>fl (y1 + s) - (y1 + s)\<bar> \<le> 1 / 2 ^ 17" by (rule fl_err_small)
  then have e2: "\<bar>y2 - (y1 + s)\<bar> \<le> 1 / 131072" unfolding y2e by simp
  have y2up: "y2 \<le> of_int j + 147 / 100 + 5 / 131072" using e2 up2 by linarith
  have "\<bar>(Math_round m + Math_round f + Math_round s) - Math_round y2\<bar> < of_int 1 + 1"
    using y2lo y2up Math_round_upper[of y2] Math_round_lower[of y2] unfolding N by simp
  with N have "\<bar>(Math_round m + Math_round f + Math_round s) - Math_round y2\<bar> \<le> of_int 1"
    by (rule round_gap)
  then show ?thesis unfolding y2_def y1_def by simp
qed

lemma tier3_sum:
  assumes fm: "fl m = m" and ff: "fl f = f" and fs: "fl s = s" and fl': "fl l = l"
    and bm: "\<bar>m\<bar> \<le> 2 ^ 31" and bf: "\<bar>f\<bar> \<le> 2 ^ 31" and bs: "\<bar>s\<bar> \<le> 2 ^ 31"
    and bl: "\<bar>l\<bar> \<le> 2 ^ 31"
  shows "\<bar>Math_round m + Math_round f + Math_round s + Math_round l
           + Math_round (fmul (fadd (fadd (fadd m f) s) l) (3 / 20))
           - Math_round (fmul (fadd (fadd (fadd m f) s) l) (23 / 20))\<bar> \<le> 3"
proof -
  define y1 where "y1 = fadd m f"
  define y2 where "y2 = fadd y1 s"
  define B where "B = fadd y2 l"
  define cA where "cA = fl (23 / 20)"
  define cB where "cB = fl (3 / 20)"
  define k0 where "k0 = fmul B (3 / 20)"
  define p0 where "p0 = fmul B (23 / 20)"
  define i where "i = \<lfloor>m + 1 / 2\<rfloor> + \<lfloor>f + 1 / 2\<rfloor> + \<lfloor>s + 1 / 2\<rfloor> + \<lfloor>l + 1 / 2\<rfloor>"
  have y1e: "y1 = fl (m + f)" by (simp add: y1_def fadd_def fm ff)
  have fy1: "fl y1 = y1" by (simp add: y1_def fl_fadd)
  have y2e: "y2 = fl (y1 + s)" by (simp add: y2_def fadd_def fs fy1)
  have fy2: "fl y2 = y2" by (simp add: y2_def fl_fadd)
  have Be: "B = fl (y2 + l)" by (simp add: B_def fadd_def fl' fy2)
  have fB: "fl B = B" by (simp add: B_def fl_fadd)
  have k0e: "k0 = fl (B * cB)" by (simp add: k0_def fmul_def fB cB_def)
  have p0e: "p0 = fl (B * cA)" by (simp add: p0_def fmul_def fB cA_def)
  have cAv: "cA = 5179139571476070 / 2 ^ 52" by (simp add: cA_def tier_roundings)
  have cBv: "cB = 5404319552844595 / 2 ^ 55" by (simp add: cB_def tier_roundings)
  have dc: "cB - cA + 1 = 3 / 36028797018963968" by (simp add: cAv cBv)
  have cA0: "0 \<le> cA" and cA2: "cA \<le> 2" by (simp_all add: cAv)
  have cB0: "0 \<le> cB" and cB2: "cB \<le> 2" by (simp_all add: cBv)
  have N4: "Math_round m + Math_round f + Math_round s + Math_round l = of_int i"
    by (simp add: Math_round_def i_def)
  have L: "Math_round m + Math_round f + Math_round s + Math_round l + Math_round k0
             = of_int (i + \<lfloor>k0 + 1 / 2\<rfloor>)"
    by (simp add: Math_round_def i_def)
  have bm': "\<bar>m\<bar> \<le> 2147483648" using bm by simp
  have bf': "\<bar>f\<bar> \<le> 2147483648" using bf by simp
  have bs': "\<bar>s\<bar> \<le> 2147483648" using bs by simp
  have bl': "\<bar>l\<bar> \<le> 2147483648" using bl by simp
  have "\<bar>m + f\<bar> \<le> 2 ^ 35" using bm' bf' by (simp; linarith)
  then have "\<bar>fl (m + f) - (m + f)\<bar> \<le> 1 / 2 ^ 17" by (rule fl_err_small)
  then have e1: "\<bar>y1 - (m + f)\<bar> \<le> 1 / 131072" unfolding y1e by simp
  have "\<bar>y1 + s\<bar> \<le> 2 ^ 35" using e1 bm' bf' bs' by (simp; linarith)
  then have "\<bar>fl (y1 + s) - (y1 + s)\<bar> \<le> 1 / 2 ^ 17" by (rule fl_err_small)
  then have e2: "\<bar>y2 - (y1 + s)\<bar> \<le> 1 / 131072" unfolding y2e by simp
  have "\<bar>y2 + l\<bar> \<le> 2 ^ 35" using e1 e2 bm' bf' bs' bl' by (simp; linarith)
  then have "\<bar>fl (y2 + l) - (y2 + l)\<bar> \<le> 1 / 2 ^ 17" by (rule fl_err_small)
  then have e3: "\<bar>B - (y2 + l)\<bar> \<le> 1 / 131072" unfolding Be by simp
  have Bb: "\<bar>B\<bar> \<le> 8589934593" using e1 e2 e3 bm' bf' bs' bl' by linarith
  have d4: "\<bar>m + f + s + l - of_int i\<bar> \<le> 2"
    using Math_round_upper[of m] Math_round_lower[of m] Math_round_upper[of f]
      Math_round_lower[of f] Math_round_upper[of s] Math_round_lower[of s]
      Math_round_upper[of l] Math_round_lower[of l]
    unfolding N4[symmetric] by linarith
  have "\<bar>B * cA\<bar> = \<bar>B\<bar> * cA" using cA0 by (simp add: abs_mult)
  also have "\<dots> \<le> 8589934593 * 2" using Bb cA0 cA2 by (intro mult_mono) simp_all
  finally have "\<bar>B * cA\<bar> \<le> 2 ^ 35" by simp
  then have "\<bar>fl (B * cA) - B * cA\<bar> \<le> 1 / 2 ^ 17" by (rule fl_err_small)
  then have ep: "\<bar>p0 - B * cA\<bar> \<le> 1 / 131072" unfolding p0e by simp
  have "\<bar>B * cB\<bar> = \<bar>B\<bar> * cB" using cB0 by (simp add: abs_mult)
  also have "\<dots> \<le> 8589934593 * 2" using Bb cB0 cB2 by (intro mult_mono) simp_all
  finally have "\<bar>B * cB\<bar> \<le> 2 ^ 35" by simp
  then have "\<bar>fl (B * cB) - B * cB\<bar> \<le> 1 / 2 ^ 17" by (rule fl_err_small)
  then have ek: "\<bar>k0 - B * cB\<bar> \<le> 1 / 131072" unfolding k0e by simp
  have "B * cB - B * cA + B = B * (cB - cA + 1)" by (simp add: algebra_simps)
  then have id: "B * cB - B * cA + B = B * (3 / 36028797018963968)" unfolding dc .
  define w where "w = B * (3 / 36028797018963968)"
  have z: "\<bar>w\<bar> \<le> 1 / 131072" using Bb unfolding w_def by (simp; linarith)
  have g1: "\<bar>B - of_int i\<bar> \<le> 2 + 3 / 131072" using d4 e1 e2 e3 by linarith
  have g2: "\<bar>k0 - p0 + B\<bar> \<le> 3 / 131072" using ep ek id z unfolding w_def[symmetric] by linarith
  have "\<bar>(of_int i + Math_round k0) - Math_round p0\<bar> < 4"
    using g1 g2 Math_round_upper[of k0] Math_round_lower[of k0]
      Math_round_upper[of p0] Math_round_lower[of p0]
    by linarith
  then have "\<bar>(Math_round m + Math_round f + Math_round s + Math_round l + Math_round k0)
          - Math_round p0\<bar> < of_int 3 + 1"
    unfolding N4 by simp
  with L have "\<bar>(Math_round m + Math_round f + Math_round s + Math_round l + Math_round k0)
          - Math_round p0\<bar> \<le> of_int 3" by (rule round_gap)
  then show ?thesis unfolding k0_def p0_def B_def y2_def y1_def by simp
qed

text \<open>
  Claim C6, amended. For every quote that the calculator returns with no breakdown line
  above 10^9 in absolute value, the sum of the breakdown lines differs from the annual
  price by at most 1 for the grass-roots and premier tiers and by at most 3 for the
  total-landscape tier.
\<close>

theorem breakdown_sum_tolerance:
  assumes "calculateAllTiers env property = Inr tiers" and "t \<in> set tiers"
    and "\<forall>q \<in> set tiers. \<forall>line \<in> set (breakdown q). \<bar>snd line\<bar> \<le> 10 ^ 9"
  shows "\<bar>sum_list (map snd (breakdown t)) - annualPrice t\<bar>
           \<le> (if tier t = Total_landscape then 3 else 1)"
proof -
  obtain cm cf cs cl where ts: "tiers = tierQuotes (round_cents cm) (round_cents cf)
                                         (round_cents cs) (round_cents cl)"
    using calculateAllTiers_cents[OF assms(1)] by blast
  define m where "m = round_cents cm"
  define f where "f = round_cents cf"
  define s where "s = round_cents cs"
  define l where "l = round_cents cl"
  note ts' = ts[folded m_def f_def s_def l_def]
  obtain nm where nm: "m = fl (of_int nm / 100)" unfolding m_def using round_cents_form by blast
  obtain nf where nf: "f = fl (of_int nf / 100)" unfolding f_def using round_cents_form by blast
  obtain ns where ns: "s = fl (of_int ns / 100)" unfolding s_def using round_cents_form by blast
  have fm: "fl m = m" and ff: "fl f = f" and fs: "fl s = s" and fl': "fl l = l"
    by (simp_all add: m_def f_def s_def l_def fl_round_cents)
  have "\<bar>Math_round m\<bar> \<le> 10 ^ 9 \<and> \<bar>Math_round f\<bar> \<le> 10 ^ 9
        \<and> \<bar>Math_round s\<bar> \<le> 10 ^ 9 \<and> \<bar>Math_round l\<bar> \<le> 10 ^ 9"
    using assms(3) unfolding ts' by (simp add: tierQuotes_def Let_def)
  then have bm: "\<bar>m\<bar> \<le> 2 ^ 31" and bf: "\<bar>f\<bar> \<le> 2 ^ 31" and bs: "\<bar>s\<bar> \<le> 2 ^ 31"
    and bl: "\<bar>l\<bar> \<le> 2 ^ 31"
    by (blast intro: line_bound)+
  define b where "b = fmul f (1 / 4)"
  have fb: "fl b = b" by (simp add: b_def fl_fmul)
  have "\<bar>f * (1 / 4)\<bar> \<le> 2 ^ 32" using bf by simp
  then have "\<bar>fl (f * (1 / 4))\<bar> \<le> 2 ^ 32" by (rule fl_abs_le_pow2)
  then have bb: "\<bar>b\<bar> \<le> 2 ^ 32" by (simp add: b_def fmul_def ff fl_quarter)
  have bm2: "\<bar>m\<bar> \<le> 2 ^ 32" using bm by simp
  have t1: "\<bar>Math_round m + Math_round b - Math_round (fadd m b)\<bar> \<le> 1"
    using fm fb bm2 bb by (rule tier1_sum)
  have t2: "\<bar>Math_round m + Math_round f + Math_round s
              - Math_round (fadd (fadd m f) s)\<bar> \<le> 1"
    using nm nf ns bm bf bs by (rule tier2_sum)
  have t3: "\<bar>Math_round m + Math_round f + Math_round s + Math_round l
           + Math_round (fmul (fadd (fadd (fadd m f) s) l) (3 / 20))
           - Math_round (fmul (fadd (fadd (fadd m f) s) l) (23 / 20))\<bar> \<le> 3"
    using fm ff fs fl' bm bf bs bl by (rule tier3_sum)
  from assms(2) ts' consider
    "t = tierQuotes m f s l ! 0" | "t = tierQuotes m f s l ! 1" | "t = tierQuotes m f s l ! 2"
    by (auto simp: tierQuotes_def Let_def)
  then show ?thesis
  proof cases
    case 1 then show ?thesis using t1 by (simp add: tierQuotes_def Let_def b_def)
  next
    case 2 then show ?thesis using t2 by (simp add: tierQuotes_def Let_def add.assoc)
  next
    case 3 then show ?thesis using t3 by (simp add: tierQuotes_def Let_def add.assoc)
  qed
qed

theorem breakdown_sum_tolerance_witness:
  "calculateAllTiers seedEnv smallProperty = Inr smallTiers
   \<and> smallTiers ! 2 \<in> set smallTiers
   \<and> list_all (\<lambda>q. list_all (\<lambda>line. \<bar>snd line\<bar> \<le> 10 ^ 9) (breakdown q)) smallTiers
   \<and> tier (smallTiers ! 2) = Total_landscape
   \<and> sum_list (map snd (breakdown (smallTiers ! 2))) = 1572
   \<and> annualPrice (smallTiers ! 2) = 1574
   \<and> \<bar>sum_list (map snd (breakdown (smallTiers ! 2))) - annualPrice (smallTiers ! 2)\<bar>
         \<le> (if tier (smallTiers ! 2) = Total_landscape then 3 else 1)"
proof -
  have r: "calculateAllTiers seedEnv smallProperty = Inr smallTiers"
    by (simp add: smallTiers_def small_eval)
  have m: "smallTiers ! 2 \<in> set smallTiers"
    by (simp add: smallTiers_def small_eval)
  have b: "\<forall>q \<in> set smallTiers. \<forall>line \<in> set (breakdown q). \<bar>snd line\<bar> \<le> 10 ^ 9"
    by (simp add: smallTiers_def small_eval)
  have v: "tier (smallTiers ! 2) = Total_landscape"
    "sum_list (map snd (breakdown (smallTiers ! 2))) = 1572"
    "annualPrice (smallTiers ! 2) = 1574"
    by (simp_all add: smallTiers_def small_eval)
  have l: "list_all (\<lambda>q. list_all (\<lambda>line. \<bar>snd line\<bar> \<le> 10 ^ 9) (breakdown q)) smallTiers"
    using b by (simp add: list_all_iff)
  note t = breakdown_sum_tolerance[OF r m b]
  show ?thesis by (intro conjI) (rule r m l v t)+
qed

theorem breakdown_sum_counterexample:
  "calculateAllTiers halvesEnv halvesProperty = Inr halvesTiers
   \<and> tier (halvesTiers ! 2) = Total_landscape
   \<and> breakdown (halvesTiers ! 2) = [(''mowing'', 1), (''leafCleanup'', 1), (''seasonal'', 1669),
                                     (''lights'', 1), (''premiumMarkup'', 251)]
   \<and> sum_list (map snd (breakdown (halvesTiers ! 2))) = 1923
   \<and> annualPrice (halvesTiers ! 2) = 1920
   \<and> \<not> \<bar>sum_list (map snd (breakdown (halvesTiers ! 2))) - annualPrice (halvesTiers ! 2)\<bar> \<le> 1
   \<and> \<not> \<bar>sum_list (map snd (breakdown (halvesTiers ! 2))) - annualPrice (halvesTiers ! 2)\<bar> \<le> 2"
  by (simp add: halvesTiers_def halves_eval)

section \<open>Missing rate cards\<close>

text \<open>
  Claim C3, a defect of the code. When the catalog loads and one of the four tier-pricing
  codes has no active row, \<open>calculateAllTiers\<close> returns no quote and defaults no rate,
  but the failure is not a configuration error: it is the \<^verbatim>\<open>TypeError\<close> that the
  runtime raises when the first cost function reads the base rate of
  \<^verbatim>\<open>undefined\<close>, the lookup being guarded by nothing but the erased assertion
  \<^verbatim>\<open>!\<close>. A failed query, by contrast, is reported with an \<^verbatim>\<open>AppError\<close>.
\<close>

theorem missing_card_type_error:
  assumes "rate_cards env = Some rows"
    and "code \<in> {''MOWING_BASE'', ''LEAF_CLEANUP'', ''SEASONAL_PACKAGE'', ''LIGHTS_INSTALL''}"
    and "\<forall>rc \<in> set rows. service_code rc = code \<longrightarrow> \<not> active rc"
  shows "calculateAllTiers env property
           = Inl (TypeError ''Cannot read properties of undefined (reading baseRate)'')"
proof -
  have l: "loadRateCards env = Inr (filter active rows)"
    using assms(1) by (simp add: loadRateCards_def)
  have "rateCardMap (filter active rows) code = None"
    using assms(3) by (auto simp: rateCardMap_None)
  with assms(2) l show ?thesis
    by (auto simp: calculateAllTiers_def Let_def undefinedCard_def split: option.splits)
qed

theorem missing_card_type_error_witness:
  "rate_cards lightsInactiveEnv \<noteq> None
   \<and> list_all (\<lambda>rc. service_code rc \<noteq> ''LIGHTS_INSTALL'' \<or> \<not> active rc)
        (the (rate_cards lightsInactiveEnv))
   \<and> calculateAllTiers lightsInactiveEnv scenarioProperty
        = Inl (TypeError ''Cannot read properties of undefined (reading baseRate)'')"
proof -
  let ?rows = "the (rate_cards lightsInactiveEnv)"
  have r: "rate_cards lightsInactiveEnv = Some ?rows"
    by (simp add: lightsInactiveEnv_def)
  have c: "''LIGHTS_INSTALL'' \<in> {''MOWING_BASE'', ''LEAF_CLEANUP'', ''SEASONAL_PACKAGE'', ''LIGHTS_INSTALL''}"
    by simp
  have a: "\<forall>rc \<in> set ?rows. service_code rc = ''LIGHTS_INSTALL'' \<longrightarrow> \<not> active rc"
    by (simp add: lightsInactiveEnv_def seedRateCards_def)
  show ?thesis
    using missing_card_type_error[OF r c a] r a by (auto simp: list_all_iff)
qed

theorem missing_card_counterexample:
  "rate_cards noMowingEnv = Some (tl seedRateCards)
   \<and> rateCardMap (tl seedRateCards) ''MOWING_BASE'' = None
   \<and> calculateAllTiers noMowingEnv scenarioProperty
        = Inl (TypeError ''Cannot read properties of undefined (reading baseRate)'')
   \<and> \<not> is_AppError (projl (calculateAllTiers noMowingEnv scenarioProperty))"
proof -
  have r: "rate_cards noMowingEnv = Some (tl seedRateCards)"
    by (simp add: noMowingEnv_def withoutCard_def seedEnv_def seedRateCards_def)
  have n: "rateCardMap (tl seedRateCards) ''MOWING_BASE'' = None"
    by (simp add: rateCardMap_def seedRateCards_def)
  have l: "loadRateCards noMowingEnv = Inr (tl seedRateCards)"
    using r by (simp add: loadRateCards_def seedRateCards_def)
  have "calculateAllTiers noMowingEnv scenarioProperty
        = Inl (TypeError ''Cannot read properties of undefined (reading baseRate)'')"
    using l n by (simp add: calculateAllTiers_def Let_def undefinedCard_def)
  with r n show ?thesis by simp
qed

section \<open>Monthly prices\<close>

lemma round_twelfth:
  "\<bar>Math_round (fdiv (fl w) 12) - Math_round (fdiv (Math_round (fl w)) 12)\<bar> \<le> 1"
proof (cases "2 ^ 52 \<le> \<bar>fl w\<bar>")
  case True
  from fl_large_int[OF True] obtain j where "fl w = of_int j" by blast
  then have "Math_round (fl w) = fl w" by (simp add: Math_round_of_int)
  then show ?thesis by simp
next
  case False
  let ?T = "fl w"
  let ?R = "Math_round ?T"
  have T: "\<bar>?T\<bar> < 2 ^ 52" using False by simp
  have TR: "\<bar>?T - ?R\<bar> \<le> 1 / 2"
    using Math_round_upper[of ?T] Math_round_lower[of ?T] by linarith
  have T': "\<bar>?T\<bar> < 4503599627370496" using T by simp
  have "\<bar>\<lfloor>?T + 1 / 2\<rfloor>\<bar> \<le> 9007199254740992" using T' by linarith
  then have "\<bar>\<lfloor>?T + 1 / 2\<rfloor>\<bar> \<le> 2 ^ 53" by simp
  then have flR: "fl ?R = ?R" unfolding Math_round_def by (rule fl_of_int)
  have a: "fdiv ?T 12 = fl (?T / 12)" by (simp add: fdiv_def fl_fl fl_12)
  have b: "fdiv ?R 12 = fl (?R / 12)" by (simp add: fdiv_def flR fl_12)
  have ea: "\<bar>fl (?T / 12) - ?T / 12\<bar> \<le> \<bar>?T / 12\<bar> / 2 ^ 53 + tiny" by (rule fl_error)
  have eb: "\<bar>fl (?R / 12) - ?R / 12\<bar> \<le> \<bar>?R / 12\<bar> / 2 ^ 53 + tiny" by (rule fl_error)
  have t: "tiny \<le> 1 / 100" using tiny_le by simp
  have A: "\<bar>?T / 12\<bar> / 2 ^ 53 \<le> 1 / 24" using T by simp
  have "\<bar>?R\<bar> \<le> 2 ^ 52 + 1" using T TR by linarith
  then have B: "\<bar>?R / 12\<bar> / 2 ^ 53 \<le> 1 / 12" by simp
  have "\<bar>?T / 12 - ?R / 12\<bar> \<le> 1 / 24" using TR by linarith
  with ea eb A B t have "\<bar>fl (?T / 12) - fl (?R / 12)\<bar> < 1" by linarith
  then show ?thesis unfolding a b by (rule Math_round_close)
qed

text \<open>
  Claim C7, amended. For every tier the monthly price is the rounded twelfth of the tier's
  annual total before that total is rounded to whole currency units, the annual price
  being the same total rounded; it is within 1 of the rounded twelfth of the annual price.
\<close>

theorem monthly_price_from_unrounded_annual:
  fixes env :: Env and property :: Property
  assumes "loadRateCards env = Inr rateCards"
    and "rateCardMap rateCards ''MOWING_BASE'' = Some mowingCard"
    and "rateCardMap rateCards ''LEAF_CLEANUP'' = Some leafCard"
    and "rateCardMap rateCards ''SEASONAL_PACKAGE'' = Some seasonalCard"
    and "rateCardMap rateCards ''LIGHTS_INSTALL'' = Some lightsCard"
  defines "multiplier \<equiv> totalMultiplier env property"
  defines "mowingCost \<equiv> calculateMowingCost (or_default (lawnSqft property) 0) mowingCard multiplier"
    and "fullLeafCost \<equiv>
           calculateLeafCleanupCost (or_default (lawnSqft property) 0) leafCard multiplier True"
    and "seasonalCost \<equiv> calculateSeasonalPackageCost seasonalCard multiplier"
    and "lightsCost \<equiv> calculateLightsCost (or_default (rooflineFt property) 0) lightsCard multiplier"
  defines "tier1Annual \<equiv> fadd mowingCost (fmul fullLeafCost 0.25)"
    and "tier2Annual \<equiv> fadd (fadd mowingCost fullLeafCost) seasonalCost"
    and "tier3Annual \<equiv>
           fmul (fadd (fadd (fadd mowingCost fullLeafCost) seasonalCost) lightsCost) 1.15"
  shows "\<exists>t1 t2 t3. calculateAllTiers env property = Inr [t1, t2, t3]
           \<and> annualPrice t1 = Math_round tier1Annual
           \<and> monthlyPrice t1 = Math_round (fdiv tier1Annual 12)
           \<and> annualPrice t2 = Math_round tier2Annual
           \<and> monthlyPrice t2 = Math_round (fdiv tier2Annual 12)
           \<and> annualPrice t3 = Math_round tier3Annual
           \<and> monthlyPrice t3 = Math_round (fdiv tier3Annual 12)
           \<and> \<bar>monthlyPrice t1 - Math_round (fdiv (annualPrice t1) 12)\<bar> \<le> 1
           \<and> \<bar>monthlyPrice t2 - Math_round (fdiv (annualPrice t2) 12)\<bar> \<le> 1
           \<and> \<bar>monthlyPrice t3 - Math_round (fdiv (annualPrice t3) 12)\<bar> \<le> 1"
proof -
  let ?ts = "tierQuotes mowingCost fullLeafCost seasonalCost lightsCost"
  have res: "calculateAllTiers env property = Inr ?ts"
    unfolding multiplier_def mowingCost_def fullLeafCost_def seasonalCost_def lightsCost_def
    by (rule calculateAllTiers_Inr[OF assms(1-5)])
  from tierQuotes_list[of mowingCost fullLeafCost seasonalCost lightsCost]
  obtain t1 t2 t3 where ts: "?ts = [t1, t2, t3]"
    and t1: "t1 = ?ts ! 0" and t2: "t2 = ?ts ! 1" and t3: "t3 = ?ts ! 2"
    by blast
  have a1: "annualPrice t1 = Math_round tier1Annual"
    and m1: "monthlyPrice t1 = Math_round (fdiv tier1Annual 12)"
    unfolding t1 tier1Annual_def by (simp_all add: tierQuotes_def Let_def)
  have a2: "annualPrice t2 = Math_round tier2Annual"
    and m2: "monthlyPrice t2 = Math_round (fdiv tier2Annual 12)"
    unfolding t2 tier2Annual_def by (simp_all add: tierQuotes_def Let_def)
  have a3: "annualPrice t3 = Math_round tier3Annual"
    and m3: "monthlyPrice t3 = Math_round (fdiv tier3Annual 12)"
    unfolding t3 tier3Annual_def by (simp_all add: tierQuotes_def Let_def)
  have b1: "\<bar>monthlyPrice t1 - Math_round (fdiv (annualPrice t1) 12)\<bar> \<le> 1"
    unfolding a1 m1 tier1Annual_def fadd_def by (rule round_twelfth)
  have b2: "\<bar>monthlyPrice t2 - Math_round (fdiv (annualPrice t2) 12)\<bar> \<le> 1"
    unfolding a2 m2 tier2Annual_def fadd_def by (rule round_twelfth)
  have b3: "\<bar>monthlyPrice t3 - Math_round (fdiv (annualPrice t3) 12)\<bar> \<le> 1"
    unfolding a3 m3 tier3Annual_def fmul_def by (rule round_twelfth)
  from res ts a1 m1 a2 m2 a3 m3 b1 b2 b3 show ?thesis by simp
qed

theorem monthly_price_from_unrounded_annual_witness:
  "\<exists>t1 t2 t3. calculateAllTiers seedEnv scenarioProperty = Inr [t1, t2, t3]
      \<and> annualPrice t1 = 1811 \<and> monthlyPrice t1 = 151
      \<and> annualPrice t2 = 2783 \<and> monthlyPrice t2 = 232
      \<and> annualPrice t3 = 3879 \<and> monthlyPrice t3 = 323"
  using monthly_price_from_unrounded_annual[OF seed_loaded seed_cards, of scenarioProperty]
  by (simp add: scenario_eval)

theorem monthly_price_counterexample:
  "calculateAllTiers seedEnv smallProperty = Inr smallTiers
   \<and> tier (smallTiers ! 0) = Grass_roots
   \<and> annualPrice (smallTiers ! 0) = 522
   \<and> monthlyPrice (smallTiers ! 0) = 43
   \<and> Math_round (annualPrice (smallTiers ! 0) / 12) = 44
   \<and> Math_round (fdiv (annualPrice (smallTiers ! 0)) 12) = 44
   \<and> monthlyPrice (smallTiers ! 0) \<noteq> Math_round (annualPrice (smallTiers ! 0) / 12)"
  by (simp add: smallTiers_def small_eval Math_round_def fdiv_def tier_roundings
      tier_roundings_more other_roundings)

section \<open>Labor hours\<close>

lemma baseHours_ratio: "baseHours serviceType lawn = fdiv lawn (sqftPerHour serviceType)"
  by (cases serviceType) (simp_all add: baseHours_def sqftPerHour_def)

lemma baseHours_pos:
  assumes "1 \<le> lawn"
  shows "0 < baseHours serviceType lawn"
proof -
  have "fl 1 \<le> fl lawn" using assms by (rule fl_mono)
  then have l: "1 \<le> fl lawn" by (simp add: fl_1)
  have r: "fl (sqftPerHour serviceType) = sqftPerHour serviceType"
    by (cases serviceType) (simp_all add: sqftPerHour_def fl_numeral_small)
  have r0: "0 < sqftPerHour serviceType" and r1: "sqftPerHour serviceType \<le> 8192"
    by (cases serviceType; simp add: sqftPerHour_def)+
  have "1 / 8192 \<le> 1 / sqftPerHour serviceType"
    using r0 r1 by (simp add: field_simps)
  also have "\<dots> \<le> fl lawn / sqftPerHour serviceType"
    using l r0 by (simp add: divide_right_mono)
  finally have "fl (1 / 8192) \<le> fl (fl lawn / sqftPerHour serviceType)" by (rule fl_mono)
  moreover have "fl (1 / 8192) = 1 / 8192" using fl_dyadic[of 1 13] by simp
  ultimately have "1 / 8192 \<le> fdiv lawn (sqftPerHour serviceType)"
    by (simp add: fdiv_def r)
  then show ?thesis unfolding baseHours_ratio by linarith
qed

text \<open>For a lawn of at least one square foot the fallback of 2 hours is never used.\<close>

lemma estimateLaborHours_positive_lawn:
  assumes "1 \<le> lawn"
  shows "estimateLaborHours serviceType lawn score
           = fdiv (Math_ceil (fmul (fmul (fdiv lawn (sqftPerHour serviceType))
                                         (fdiv score 3)) 2)) 2"
  using baseHours_pos[OF assms, of serviceType]
  by (simp add: estimateLaborHours_def Let_def baseHours_ratio)

text \<open>
  Claim C8, a defect of the code. \<open>estimateLaborHours\<close> does not return the lawn area
  divided by the square feet per hour of the service, times a third of the score, rounded
  up to the next half hour, in two cases. For a lawn area of zero the base of zero hours
  is falsy, so \<^verbatim>\<open>baseHours[serviceType] || 2\<close> replaces it by 2: mowing, lawn 0 and
  score 3 give 2 hours where the formula gives 0. And the product is computed in double
  arithmetic before \<^verbatim>\<open>Math.ceil\<close>: mowing, lawn 10500 and score 5 give twice the
  hours as 7.000000000000001, so 4 hours, where the formula gives exactly 3.5.
\<close>

theorem labor_hours_divergence:
  "estimateLaborHours Mowing 0 3 = 2
   \<and> Math_ceil ((0 / sqftPerHour Mowing) * (3 / 3) * 2) / 2 = 0
   \<and> estimateLaborHours Mowing 10500 5 = 4
   \<and> fmul (fmul (fdiv 10500 5000) (fdiv 5 3)) 2 = 7 + 1 / 2 ^ 50
   \<and> Math_ceil ((10500 / sqftPerHour Mowing) * (5 / 3) * 2) / 2 = 7 / 2"
  by (simp add: estimateLaborHours_def baseHours_def sqftPerHour_def Math_ceil_def Let_def
      fmul_def fdiv_def fl_0 tier_roundings tier_roundings_more other_roundings)

section \<open>The upsell engine\<close>

lemma rateCardMap_without:
  "rateCardMap (filter (\<lambda>rc. service_code rc \<noteq> code) rateCards) c
     = (if c = code then None else rateCardMap rateCards c)"
  unfolding rateCardMap_def
  by (induction rateCards) (auto simp: map_add_def split: option.splits)

lemma filter_active_without:
  "filter active (filter (\<lambda>rc. service_code rc \<noteq> code) rows)
     = filter (\<lambda>rc. service_code rc \<noteq> code) (filter active rows)"
  by (induction rows) auto

lemma edgingRule_without:
  "edgingRule (\<lambda>c. if c = code then None else cards c) property
     = filter (\<lambda>u. rateCardOf (serviceCode u) \<noteq> code) (edgingRule cards property)"
  by (cases "code = ''EDGING''"; cases "bedSqft property"; cases "cards ''EDGING''")
    (simp_all add: edgingRule_def rateCardOf_def Let_def cong: if_cong)

lemma bushTrimmingRule_without:
  "bushTrimmingRule (\<lambda>c. if c = code then None else cards c) property
     = filter (\<lambda>u. rateCardOf (serviceCode u) \<noteq> code) (bushTrimmingRule cards property)"
  by (cases "code = ''BUSH_TRIMMING''"; cases "bushCount property"; cases "cards ''BUSH_TRIMMING''")
    (simp_all add: bushTrimmingRule_def rateCardOf_def Let_def cong: if_cong)

lemma mulchRule_without:
  "mulchRule (\<lambda>c. if c = code then None else cards c) property
     = filter (\<lambda>u. rateCardOf (serviceCode u) \<noteq> code) (mulchRule cards property)"
  by (cases "code = ''MULCH_INSTALL''"; cases "bedSqft property"; cases "cards ''MULCH_INSTALL''")
    (simp_all add: mulchRule_def rateCardOf_def Let_def cong: if_cong)

lemma bedMaintenanceRule_without:
  "bedMaintenanceRule (\<lambda>c. if c = code then None else cards c) property tr
     = filter (\<lambda>u. rateCardOf (serviceCode u) \<noteq> code) (bedMaintenanceRule cards property tr)"
  by (cases "code = ''BED_MAINTENANCE''"; cases "bedSqft property"; cases "cards ''BED_MAINTENANCE''")
    (simp_all add: bedMaintenanceRule_def rateCardOf_def Let_def cong: if_cong)

lemma leafUpgradeRule_without:
  "leafUpgradeRule (\<lambda>c. if c = code then None else cards c) property tr
     = filter (\<lambda>u. rateCardOf (serviceCode u) \<noteq> code) (leafUpgradeRule cards property tr)"
  by (cases "code = ''LEAF_CLEANUP''"; cases "lawnSqft property"; cases "cards ''LEAF_CLEANUP''")
    (simp_all add: leafUpgradeRule_def rateCardOf_def Let_def cong: if_cong)

lemma seasonalRule_without:
  "seasonalRule (\<lambda>c. if c = code then None else cards c) property tr
     = filter (\<lambda>u. rateCardOf (serviceCode u) \<noteq> code) (seasonalRule cards property tr)"
  by (cases "code = ''SEASONAL_PACKAGE''"; cases "cards ''SEASONAL_PACKAGE''")
    (simp_all add: seasonalRule_def rateCardOf_def Let_def cong: if_cong)

lemma lightsRule_without:
  "lightsRule (\<lambda>c. if c = code then None else cards c) property tr
     = filter (\<lambda>u. rateCardOf (serviceCode u) \<noteq> code) (lightsRule cards property tr)"
  by (cases "code = ''LIGHTS_INSTALL''"; cases "rooflineFt property"; cases "cards ''LIGHTS_INSTALL''")
    (simp_all add: lightsRule_def rateCardOf_def Let_def cong: if_cong)

text \<open>
  Claim C10. When the rate cards cannot be loaded, \<open>generateUpsells\<close> returns the empty
  list; and taking one service code out of the catalog removes exactly the upsell that is
  priced from that card, every other rule contributing the upsell it contributed before.
  The function has no failing branch.
\<close>

theorem upsells_tolerate_missing_cards:
  "generateUpsells (env\<lparr>rate_cards := None\<rparr>) property serviceType tr = []
   \<and> generateUpsells (withoutCard code env) property serviceType tr
       = filter (\<lambda>u. rateCardOf (serviceCode u) \<noteq> code)
           (generateUpsells env property serviceType tr)"
proof (cases "rate_cards env")
  case None
  then show ?thesis by (simp add: generateUpsells_def withoutCard_def)
next
  case (Some rows)
  have cards: "rateCardMap (filter active (filter (\<lambda>rc. service_code rc \<noteq> code) rows))
                 = (\<lambda>c. if c = code then None else rateCardMap (filter active rows) c)"
    by (rule ext) (simp only: filter_active_without rateCardMap_without)
  show ?thesis
    using Some
    by (simp del: filter_filter add: generateUpsells_def withoutCard_def cards Let_def
        edgingRule_without bushTrimmingRule_without mulchRule_without
        bedMaintenanceRule_without leafUpgradeRule_without seasonalRule_without
        lightsRule_without)
qed

lemma mulch_yardage_600: "calculateMulchYardage 600 3 = 6"
  by (simp add: calculateMulchYardage_def Math_ceil_def Let_def fmul_def fdiv_def
      tier_roundings tier_roundings_more other_roundings)

lemma bed_units_600: "fdiv 600 100 = 6"
  by (simp add: fdiv_def tier_roundings tier_roundings_more other_roundings)

text \<open>
  Claim C9. For a property with 600 sqft of overgrown beds and 8 bushes, on the premier
  tier and with the edging, bush trimming, mulch and bed maintenance cards loaded, the
  list of upsells starts with bed edging, bush trimming, mulch installation and bed
  maintenance, each of them recommended.
\<close>

theorem upsell_trigger_scenario:
  assumes "rate_cards env = Some rows"
    and "rateCardMap (filter active rows) ''EDGING'' = Some edgingCard"
    and "rateCardMap (filter active rows) ''BUSH_TRIMMING'' = Some bushCard"
    and "rateCardMap (filter active rows) ''MULCH_INSTALL'' = Some mulchCard"
    and "rateCardMap (filter active rows) ''BED_MAINTENANCE'' = Some bedMaintenanceCard"
    and "bedSqft property = Some 600"
    and "bedCondition property = Some Bed_overgrown"
    and "bushCount property = Some 8"
  shows "map (\<lambda>u. (serviceCode u, price u, recommended u))
             (take 4 (generateUpsells env property serviceType Premier))
           = [(''EDGING'', Math_round (fmul (fmul (fsqrt 600) 4) (base_rate edgingCard)), True),
              (''BUSH_TRIMMING'', Math_round (fmul 8 (base_rate bushCard)), True),
              (''MULCH_INSTALL'', Math_round (fmul 6 (base_rate mulchCard)), True),
              (''BED_MAINTENANCE'',
                 Math_round (fmul (fmul 6 (base_rate bedMaintenanceCard)) 12), True)]"
  using assms
  by (simp add: generateUpsells_def Let_def edgingRule_def bushTrimmingRule_def mulchRule_def
      bedMaintenanceRule_def mulch_yardage_600 bed_units_600)

lemma seed_upsell_cards:
  "rate_cards seedEnv = Some seedRateCards"
  "rateCardMap (filter active seedRateCards) ''EDGING'' = Some \<lparr>service_code = ''EDGING'', base_rate = 2.50, factor = 1, active = True\<rparr>"
  "rateCardMap (filter active seedRateCards) ''BUSH_TRIMMING'' = Some \<lparr>service_code = ''BUSH_TRIMMING'', base_rate = 15.00, factor = 1, active = True\<rparr>"
  "rateCardMap (filter active seedRateCards) ''MULCH_INSTALL'' = Some \<lparr>service_code = ''MULCH_INSTALL'', base_rate = 95.00, factor = 1, active = True\<rparr>"
  "rateCardMap (filter active seedRateCards) ''BED_MAINTENANCE'' = Some \<lparr>service_code = ''BED_MAINTENANCE'', base_rate = 25.00, factor = 12, active = True\<rparr>"
  by (simp_all add: seedEnv_def rateCardMap_def seedRateCards_def)

lemma edging_price_600: "Math_round (fmul (fmul (fsqrt 600) 4) (5 / 2)) = 245"
proof -
  have lo: "3135 / 128 \<le> sqrt 600" by (rule real_le_rsqrt) (simp add: power2_eq_square)
  have hi: "sqrt 600 \<le> 49 / 2" by (rule real_le_lsqrt) (simp_all add: power2_eq_square)
  have f600: "fl 600 = 600" by (simp add: fl_numeral_small)
  have f4: "fl 4 = 4" by (simp add: fl_numeral_small)
  have f52: "fl (5 / 2) = 5 / 2" using fl_dyadic[of 5 1] by simp
  have a1: "fl (3135 / 128) = 3135 / 128" using fl_dyadic[of 3135 7] by simp
  have a2: "fl (49 / 2) = 49 / 2" using fl_dyadic[of 49 1] by simp
  have b1: "fl (3135 / 32) = 3135 / 32" using fl_dyadic[of 3135 5] by simp
  have b2: "fl 98 = 98" by (simp add: fl_numeral_small)
  have c1: "fl (15675 / 64) = 15675 / 64" using fl_dyadic[of 15675 6] by simp
  have c2: "fl 245 = 245" by (simp add: fl_numeral_small)
  define x where "x = fsqrt 600"
  define y where "y = fmul x 4"
  define z where "z = fmul y (5 / 2)"
  have x: "x = fl (sqrt 600)" by (simp add: x_def fsqrt_def f600)
  have "fl (3135 / 128) \<le> fl (sqrt 600)" using lo by (rule fl_mono)
  then have x1: "3135 / 128 \<le> x" unfolding a1 x .
  have "fl (sqrt 600) \<le> fl (49 / 2)" using hi by (rule fl_mono)
  then have x2: "x \<le> 49 / 2" unfolding a2 x .
  have y: "y = fl (x * 4)" by (simp add: y_def fmul_def f4 x fl_fl)
  have "fl (3135 / 32) \<le> fl (x * 4)" by (rule fl_mono) (use x1 in simp)
  then have y1: "3135 / 32 \<le> y" unfolding b1 y .
  have "fl (x * 4) \<le> fl 98" by (rule fl_mono) (use x2 in simp)
  then have y2: "y \<le> 98" unfolding b2 y .
  have z: "z = fl (y * (5 / 2))" by (simp add: z_def fmul_def f52 y fl_fl)
  have "fl (15675 / 64) \<le> fl (y * (5 / 2))" by (rule fl_mono) (use y1 in simp)
  then have z1: "15675 / 64 \<le> z" unfolding c1 z .
  have "fl (y * (5 / 2)) \<le> fl 245" by (rule fl_mono) (use y2 in simp)
  then have z2: "z \<le> 245" unfolding c2 z .
  have "\<lfloor>z + 1 / 2\<rfloor> = 245" using z1 z2 by (simp add: floor_eq_iff)
  then show ?thesis unfolding z_def y_def x_def by (simp add: Math_round_def)
qed

theorem upsell_trigger_scenario_witness:
  "bedSqft scenarioProperty = Some 600
   \<and> bedCondition scenarioProperty = Some Bed_overgrown
   \<and> bushCount scenarioProperty = Some 8
   \<and> map (\<lambda>u. (serviceCode u, price u, recommended u))
          (take 4 (generateUpsells seedEnv scenarioProperty Mowing Premier))
        = [(''EDGING'', 245, True),
           (''BUSH_TRIMMING'', 120, True),
           (''MULCH_INSTALL'', 570, True),
           (''BED_MAINTENANCE'', 1800, True)]"
proof -
  have a: "bedSqft scenarioProperty = Some 600" by (simp add: scenarioProperty_def)
  have b: "bedCondition scenarioProperty = Some Bed_overgrown" by (simp add: scenarioProperty_def)
  have c: "bushCount scenarioProperty = Some 8" by (simp add: scenarioProperty_def)
  have p: "Math_round (fmul 8 15) = 120" "Math_round (fmul 6 95) = 570"
    "Math_round (fmul (fmul 6 25) 12) = 1800"
    by (simp_all add: Math_round_def fmul_def tier_roundings tier_roundings_more other_roundings)
  show ?thesis
    using upsell_trigger_scenario[OF seed_upsell_cards a b c, of Mowing] a b c
      edging_price_600 p
    by simp
qed

end
